theory Spec2Isabelle
  imports Main "HOL-Library.Word"
begin

unbundle bit_operations_syntax

section \<open>Data model\<close>

text \<open>
  The register file of \<^verbatim>\<open>hw/arm/tegra241-cmdqv.c\<close> and the request wrappers of
  \<^verbatim>\<open>backends/iommufd.c\<close>, embedded function by function. C integers of a fixed width are
  words; \<^verbatim>\<open>hwaddr\<close> is \<^verbatim>\<open>uint64_t\<close>. An \<^verbatim>\<open>int\<close> that only ever holds a small array
  index or an errno is a \<open>nat\<close> or an \<open>int\<close>.
\<close>

type_synonym hwaddr = "64 word"
type_synonym uint32_t = "32 word"
type_synonym uint64_t = "64 word"

text \<open>
  What C leaves undefined is a value of the model: an array subscript outside the declared
  length, a dereference of a null pointer, and an access through a pointer whose target has
  been passed to \<^verbatim>\<open>g_free\<close>.
\<close>

datatype fault = OutOfBounds | NullDeref | UseAfterFree

text \<open>
  A pointer to a heap object that has exactly one owner (the slot that stores it): null, valid
  with the object it points to, or still stored after its target was freed.
\<close>

datatype 'a pointer = Null | Valid 'a | Freed

record IOMMUFDBackend =
  fd :: int
  owned :: bool
  users :: uint32_t

text \<open>
  \<^verbatim>\<open>IOMMUFDViommu\<close> and \<^verbatim>\<open>IOMMUFDVqueue\<close> are filled in by
  \<^verbatim>\<open>iommufd_backend_alloc_viommu\<close> and \<^verbatim>\<open>iommufd_viommu_alloc_queue\<close>; the fields are the
  ones those functions assign. The back pointer of a queue to its viommu is left out.
\<close>

record IOMMUFDViommu =
  iommufd :: IOMMUFDBackend
  s2_hwpt_id :: uint32_t
  viommu_id :: uint32_t

record IOMMUFDVqueue =
  vqueue_id :: uint32_t

text \<open>The payload of a queue allocation, as \<^verbatim>\<open>tegra241_cmdqv_setup_vcmdq\<close> initialises it.\<close>

record iommu_vqueue_tegra241_cmdqv =
  vcmdq_id :: uint32_t
  vcmdq_log2size :: uint32_t
  vcmdq_base :: uint64_t

text \<open>
  Calls that leave the process: diagnostics (\<^verbatim>\<open>qemu_log_mask\<close>, \<^verbatim>\<open>error_report\<close>) and the
  kernel requests issued on the iommufd descriptor. They are appended to a trace in call order.
\<close>

datatype event =
    Unhandled_read string hwaddr
  | Unhandled_write string hwaddr
  | Off_limit string hwaddr
  | Error_report string
  | Ioctl_destroy int uint32_t
  | Ioctl_vqueue_alloc int uint32_t iommu_vqueue_tegra241_cmdqv

text \<open>
  \<^verbatim>\<open>struct Tegra241CMDQV\<close>. A fixed-length array is a function from the subscript; the declared
  lengths are the constants below and every subscript is checked against them. The shared page
  \<^verbatim>\<open>vcmdq_page0\<close> is the pointer together with the 32-bit words behind it, addressed by byte
  offset; \<open>None\<close> is the null pointer. The memory regions and interrupt lines are not modelled.
\<close>

record Tegra241CMDQV =
  viommu :: "IOMMUFDViommu option"
  vqueue :: "nat \<Rightarrow> IOMMUFDVqueue pointer"
  vcmdq_page0 :: "(nat \<Rightarrow> uint32_t) option"
  config :: uint32_t
  param :: uint32_t
  status :: uint32_t
  vi_err_map :: "nat \<Rightarrow> uint32_t"
  vi_int_mask :: "nat \<Rightarrow> uint32_t"
  cmdq_err_map :: "nat \<Rightarrow> uint32_t"
  cmdq_alloc_map :: "nat \<Rightarrow> uint32_t"
  vintf_config :: uint32_t
  vintf_status :: uint32_t
  vintf_cmdq_err_map :: "nat \<Rightarrow> uint32_t"
  vcmdq_cons_indx :: "nat \<Rightarrow> uint32_t"
  vcmdq_prod_indx :: "nat \<Rightarrow> uint32_t"
  vcmdq_config :: "nat \<Rightarrow> uint32_t"
  vcmdq_status :: "nat \<Rightarrow> uint32_t"
  vcmdq_gerror :: "nat \<Rightarrow> uint32_t"
  vcmdq_gerrorn :: "nat \<Rightarrow> uint32_t"
  vcmdq_base_reg :: "nat \<Rightarrow> uint64_t"
  vcmdq_cons_indx_base :: "nat \<Rightarrow> uint64_t"
  trace :: "event list"

text \<open>
  The field \<^verbatim>\<open>vcmdq_base\<close> of the device is \<open>vcmdq_base_reg\<close> here, since the payload struct
  has a field of the same name. \<open>trace\<close> is not a field of the C struct: it collects the events
  of the calls made on the device.
\<close>

definition len_vqueue :: nat where "len_vqueue = 128"
definition len_vi_err_map :: nat where "len_vi_err_map = 2"
definition len_vi_int_mask :: nat where "len_vi_int_mask = 2"
definition len_cmdq_err_map :: nat where "len_cmdq_err_map = 2"
definition len_cmdq_alloc_map :: nat where "len_cmdq_alloc_map = 128"
definition len_vintf_cmdq_err_map :: nat where "len_vintf_cmdq_err_map = 4"
definition len_vcmdq :: nat where "len_vcmdq = 128"

named_theorems lens \<open>declared array lengths\<close>
declare len_vqueue_def [lens] len_vi_err_map_def [lens] len_vi_int_mask_def [lens]
  len_cmdq_err_map_def [lens] len_cmdq_alloc_map_def [lens]
  len_vintf_cmdq_err_map_def [lens] len_vcmdq_def [lens]

text \<open>\<^verbatim>\<open>a[i]\<close> as an rvalue and \<^verbatim>\<open>a[i] = v\<close>, for an array of declared length \<open>n\<close>.\<close>

definition subscript :: "nat \<Rightarrow> (nat \<Rightarrow> 'a) \<Rightarrow> nat \<Rightarrow> fault + 'a" where
  "subscript n a i = (if i < n then Inr (a i) else Inl OutOfBounds)"

definition assign :: "nat \<Rightarrow> (nat \<Rightarrow> 'a) \<Rightarrow> nat \<Rightarrow> 'a \<Rightarrow> fault + (nat \<Rightarrow> 'a)" where
  "assign n a i v = (if i < n then Inr (a(i := v)) else Inl OutOfBounds)"

text \<open>Sequencing: a fault ends the call.\<close>

definition and_then :: "fault + 'a \<Rightarrow> ('a \<Rightarrow> fault + 'b) \<Rightarrow> fault + 'b" where
  "and_then m k = (case m of Inl f \<Rightarrow> Inl f | Inr x \<Rightarrow> k x)"

text \<open>\<^verbatim>\<open>for (i = 0; i < n; i++) body\<close>, without and with a body that can fault.\<close>

fun for_loop :: "nat \<Rightarrow> (nat \<Rightarrow> 's \<Rightarrow> 's) \<Rightarrow> 's \<Rightarrow> 's" where
  "for_loop 0 body s = s"
| "for_loop (Suc n) body s = body n (for_loop n body s)"

fun for_loop_e :: "nat \<Rightarrow> (nat \<Rightarrow> 's \<Rightarrow> fault + 's) \<Rightarrow> 's \<Rightarrow> fault + 's" where
  "for_loop_e 0 body s = Inr s"
| "for_loop_e (Suc n) body s =
     and_then (for_loop_e n body s) (body n)"

definition emit :: "event \<Rightarrow> Tegra241CMDQV \<Rightarrow> Tegra241CMDQV" where
  "emit e s = s\<lparr>trace := trace s @ [e]\<rparr>"

section \<open>Register map\<close>

text \<open>
  The offsets and masks of \<^verbatim>\<open>tegra241-cmdqv.h\<close>. \<^verbatim>\<open>REG32(name, addr)\<close> declares
  \<^verbatim>\<open>A_name = addr\<close> and \<^verbatim>\<open>FIELD(reg, field, shift, length)\<close> declares
  \<^verbatim>\<open>R_reg_field_MASK\<close> as the 64-bit mask of \<open>length\<close> bits starting at \<open>shift\<close>.
\<close>

definition A_CONFIG :: hwaddr where "A_CONFIG = 0x0"
definition V_CONFIG_RESET :: uint32_t where "V_CONFIG_RESET = 0x00020403"
definition A_PARAM :: hwaddr where "A_PARAM = 0x4"
definition V_PARAM_RESET :: uint32_t where "V_PARAM_RESET = 0x00004011"
definition A_STATUS :: hwaddr where "A_STATUS = 0x8"
definition R_STATUS_CMDQV_ENABLED_MASK :: uint64_t where "R_STATUS_CMDQV_ENABLED_MASK = mask 1"
definition A_VI_ERR_MAP :: hwaddr where "A_VI_ERR_MAP = 0x14"
definition A_VI_ERR_MAP_1 :: hwaddr where "A_VI_ERR_MAP_1 = 0x18"
definition A_VI_INT_MASK :: hwaddr where "A_VI_INT_MASK = 0x1c"
definition A_VI_INT_MASK_1 :: hwaddr where "A_VI_INT_MASK_1 = 0x20"
definition A_CMDQ_ERR_MAP :: hwaddr where "A_CMDQ_ERR_MAP = 0x24"
definition A_CMDQ_ERR_MAP_3 :: hwaddr where "A_CMDQ_ERR_MAP_3 = 0x30"
definition A_CMDQ_ALLOC_MAP_0 :: hwaddr where "A_CMDQ_ALLOC_MAP_0 = 0x200 + 0 * 4"
definition A_CMDQ_ALLOC_MAP_127 :: hwaddr where "A_CMDQ_ALLOC_MAP_127 = 0x200 + 127 * 4"
definition A_VINTF0_CONFIG :: hwaddr where "A_VINTF0_CONFIG = 0x1000 + 0 * 0x100"
definition R_VINTF0_CONFIG_ENABLE_MASK :: uint64_t where
  "R_VINTF0_CONFIG_ENABLE_MASK = push_bit 0 (mask 1)"
definition R_VINTF0_CONFIG_HYP_OWN_MASK :: uint64_t where
  "R_VINTF0_CONFIG_HYP_OWN_MASK = push_bit 17 (mask 1)"
definition A_VINTF0_STATUS :: hwaddr where "A_VINTF0_STATUS = 0x1004 + 0 * 0x100"
definition R_VINTF0_STATUS_ENABLE_OK_MASK :: uint64_t where
  "R_VINTF0_STATUS_ENABLE_OK_MASK = push_bit 0 (mask 1)"

text \<open>
  Modelled from the spec: the source names the four error-map words of the virtual interface
  \<^verbatim>\<open>A_VINTF0_CMDQ_ERR_MAP_0\<close> to \<^verbatim>\<open>_3\<close>, which the header does not declare (it declares
  \<^verbatim>\<open>VINTF0_LVCMDQ_ERR_MAP_j\<close> at \<^verbatim>\<open>0x10c0 + j * 4\<close>). The spec puts four error-map words in
  the block 0x1000 to 0x10FF; they take the header's offsets.
\<close>

definition A_VINTF0_CMDQ_ERR_MAP_0 :: hwaddr where "A_VINTF0_CMDQ_ERR_MAP_0 = 0x10c0 + 0 * 4"
definition A_VINTF0_CMDQ_ERR_MAP_3 :: hwaddr where "A_VINTF0_CMDQ_ERR_MAP_3 = 0x10c0 + 3 * 4"

definition A_VCMDQ0_CONS_INDX :: hwaddr where "A_VCMDQ0_CONS_INDX = 0x10000 + 0 * 0x80"
definition A_VCMDQ0_PROD_INDX :: hwaddr where "A_VCMDQ0_PROD_INDX = 0x10000 + 0x4 + 0 * 0x80"
definition A_VCMDQ0_CONFIG :: hwaddr where "A_VCMDQ0_CONFIG = 0x10000 + 0x8 + 0 * 0x80"
definition A_VCMDQ0_STATUS :: hwaddr where "A_VCMDQ0_STATUS = 0x10000 + 0xc + 0 * 0x80"
definition A_VCMDQ0_GERROR :: hwaddr where "A_VCMDQ0_GERROR = 0x10000 + 0x10 + 0 * 0x80"
definition A_VCMDQ0_GERRORN :: hwaddr where "A_VCMDQ0_GERRORN = 0x10000 + 0x14 + 0 * 0x80"
definition A_VCMDQ127_GERRORN :: hwaddr where "A_VCMDQ127_GERRORN = 0x10000 + 0x14 + 127 * 0x80"
definition A_VCMDQ0_BASE_L :: hwaddr where "A_VCMDQ0_BASE_L = 0x20000 + 0 * 0x80"
definition R_VCMDQ0_BASE_L_LOG2SIZE_MASK :: uint64_t where
  "R_VCMDQ0_BASE_L_LOG2SIZE_MASK = push_bit 0 (mask 5)"
definition R_VCMDQ0_BASE_L_ADDR_MASK :: uint64_t where
  "R_VCMDQ0_BASE_L_ADDR_MASK = push_bit 5 (mask 27)"
definition A_VCMDQ0_BASE_H :: hwaddr where "A_VCMDQ0_BASE_H = 0x20000 + 0x4 + 0 * 0x80"
definition R_VCMDQ0_BASE_H_ADDR_MASK :: uint64_t where
  "R_VCMDQ0_BASE_H_ADDR_MASK = push_bit 0 (mask 16)"
definition A_VCMDQ0_CONS_INDX_BASE_DRAM_L :: hwaddr where
  "A_VCMDQ0_CONS_INDX_BASE_DRAM_L = 0x20000 + 0x8 + 0 * 0x80"
definition A_VCMDQ0_CONS_INDX_BASE_DRAM_H :: hwaddr where
  "A_VCMDQ0_CONS_INDX_BASE_DRAM_H = 0x20000 + 0xc + 0 * 0x80"
definition A_VCMDQ127_CONS_INDX_BASE_DRAM_H :: hwaddr where
  "A_VCMDQ127_CONS_INDX_BASE_DRAM_H = 0x20000 + 0xc + 127 * 0x80"
definition A_VI_VCMDQ0_CONS_INDX :: hwaddr where "A_VI_VCMDQ0_CONS_INDX = 0x30000 + 0 * 0x80"
definition A_VI_VCMDQ127_GERRORN :: hwaddr where
  "A_VI_VCMDQ127_GERRORN = 0x30000 + 0x14 + 127 * 0x80"
definition A_VI_VCMDQ0_BASE_L :: hwaddr where "A_VI_VCMDQ0_BASE_L = 0x40000 + 0 * 0x80"
definition A_VI_VCMDQ127_CONS_INDX_BASE_DRAM_H :: hwaddr where
  "A_VI_VCMDQ127_CONS_INDX_BASE_DRAM_H = 0x40000 + 0xc + 127 * 0x80"

named_theorems regs \<open>register offsets and field masks\<close>
declare A_CONFIG_def [regs] V_CONFIG_RESET_def [regs] A_PARAM_def [regs]
  V_PARAM_RESET_def [regs] A_STATUS_def [regs] R_STATUS_CMDQV_ENABLED_MASK_def [regs]
  A_VI_ERR_MAP_def [regs] A_VI_ERR_MAP_1_def [regs] A_VI_INT_MASK_def [regs]
  A_VI_INT_MASK_1_def [regs] A_CMDQ_ERR_MAP_def [regs] A_CMDQ_ERR_MAP_3_def [regs]
  A_CMDQ_ALLOC_MAP_0_def [regs] A_CMDQ_ALLOC_MAP_127_def [regs] A_VINTF0_CONFIG_def [regs]
  R_VINTF0_CONFIG_ENABLE_MASK_def [regs] R_VINTF0_CONFIG_HYP_OWN_MASK_def [regs]
  A_VINTF0_STATUS_def [regs] R_VINTF0_STATUS_ENABLE_OK_MASK_def [regs]
  A_VINTF0_CMDQ_ERR_MAP_0_def [regs] A_VINTF0_CMDQ_ERR_MAP_3_def [regs]
  A_VCMDQ0_CONS_INDX_def [regs] A_VCMDQ0_PROD_INDX_def [regs] A_VCMDQ0_CONFIG_def [regs]
  A_VCMDQ0_STATUS_def [regs] A_VCMDQ0_GERROR_def [regs] A_VCMDQ0_GERRORN_def [regs]
  A_VCMDQ127_GERRORN_def [regs] A_VCMDQ0_BASE_L_def [regs]
  R_VCMDQ0_BASE_L_LOG2SIZE_MASK_def [regs] R_VCMDQ0_BASE_L_ADDR_MASK_def [regs]
  A_VCMDQ0_BASE_H_def [regs] R_VCMDQ0_BASE_H_ADDR_MASK_def [regs]
  A_VCMDQ0_CONS_INDX_BASE_DRAM_L_def [regs] A_VCMDQ0_CONS_INDX_BASE_DRAM_H_def [regs]
  A_VCMDQ127_CONS_INDX_BASE_DRAM_H_def [regs] A_VI_VCMDQ0_CONS_INDX_def [regs]
  A_VI_VCMDQ127_GERRORN_def [regs] A_VI_VCMDQ0_BASE_L_def [regs]
  A_VI_VCMDQ127_CONS_INDX_BASE_DRAM_H_def [regs]

text \<open>A case range \<^verbatim>\<open>case lo ... hi:\<close> of a switch.\<close>

definition case_range :: "hwaddr \<Rightarrow> hwaddr \<Rightarrow> hwaddr \<Rightarrow> bool" where
  "case_range lo hi offset \<longleftrightarrow> lo \<le> offset \<and> offset \<le> hi"

text \<open>
  Modelled from the spec: the errno values come from the host's \<^verbatim>\<open>errno.h\<close>, which is not
  part of the sources. They are the Linux values; only their being positive and distinct is
  used.
\<close>

definition ENOENT :: int where "ENOENT = 2"
definition EIO :: int where "EIO = 5"
definition ENODEV :: int where "ENODEV = 19"
definition EINVAL :: int where "EINVAL = 22"

section \<open>Collaborators\<close>

text \<open>
  What the device asks of code outside the sources: the SMMU's shared page
  (\<^verbatim>\<open>smmu_iommu_get_shared_page\<close>; \<open>None\<close> when the mapping fails), the SMMU's viommu
  (\<^verbatim>\<open>bs->viommu\<close>), \<^verbatim>\<open>cpu_physical_memory_is_ram\<close>, and the kernel's answers to
  \<^verbatim>\<open>IOMMU_DESTROY\<close> (the return value of the ioctl) and to \<^verbatim>\<open>IOMMU_VQUEUE_ALLOC\<close>
  (\<open>None\<close> when the ioctl fails, else the new queue id).
\<close>

record host =
  shared_page :: "(nat \<Rightarrow> uint32_t) option"
  bs_viommu :: "IOMMUFDViommu option"
  is_ram :: "uint64_t \<Rightarrow> bool"
  ioctl_destroy :: "int \<Rightarrow> uint32_t \<Rightarrow> int"
  ioctl_vqueue_alloc :: "int \<Rightarrow> uint32_t \<Rightarrow> iommu_vqueue_tegra241_cmdqv \<Rightarrow> uint32_t option"

section \<open>Backend calls used by the device\<close>

text \<open>\<^verbatim>\<open>iommufd_backend_free_id\<close>: the request is issued, a failure is only reported.\<close>

definition iommufd_backend_free_id ::
  "host \<Rightarrow> IOMMUFDBackend \<Rightarrow> uint32_t \<Rightarrow> Tegra241CMDQV \<Rightarrow> Tegra241CMDQV" where
  "iommufd_backend_free_id h be ident s =
     (let ret = ioctl_destroy h (fd be) ident;
          s1 = emit (Ioctl_destroy (fd be) ident) s
      in if ret \<noteq> 0 then emit (Error_report ''Failed to free id'') s1 else s1)"

text \<open>
  \<^verbatim>\<open>iommufd_viommu_alloc_queue\<close>: \<^verbatim>\<open>g_malloc\<close> does not return null, so the first check
  never fires; a failed ioctl frees the fresh object and returns null.
\<close>

definition iommufd_viommu_alloc_queue ::
  "host \<Rightarrow> IOMMUFDViommu \<Rightarrow> iommu_vqueue_tegra241_cmdqv \<Rightarrow> Tegra241CMDQV
     \<Rightarrow> IOMMUFDVqueue option \<times> Tegra241CMDQV" where
  "iommufd_viommu_alloc_queue h vi data s =
     (let fd' = fd (iommufd vi);
          s1 = emit (Ioctl_vqueue_alloc fd' (viommu_id vi) data) s
      in case ioctl_vqueue_alloc h fd' (viommu_id vi) data of
           None \<Rightarrow> (None, emit (Error_report ''IOMMU_VIOMMU_SET_DATA failed'') s1)
         | Some out_vqueue_id \<Rightarrow> (Some \<lparr>vqueue_id = out_vqueue_id\<rparr>, s1))"

section \<open>The register file\<close>

definition cmdqv_init_regs :: "Tegra241CMDQV \<Rightarrow> Tegra241CMDQV" where
  "cmdqv_init_regs s0 =
     (let s1 = s0\<lparr>config := V_CONFIG_RESET, param := V_PARAM_RESET,
                  status := ucast R_STATUS_CMDQV_ENABLED_MASK\<rparr>;
          s2 = for_loop 2 (\<lambda>i s. s\<lparr>vi_err_map := (vi_err_map s)(i := 0),
                                    vi_int_mask := (vi_int_mask s)(i := 0),
                                    cmdq_err_map := (cmdq_err_map s)(i := 0)\<rparr>) s1;
          s3 = s2\<lparr>vintf_config := 0, vintf_status := 0\<rparr>;
          s4 = for_loop 4 (\<lambda>i s. s\<lparr>vintf_cmdq_err_map := (vintf_cmdq_err_map s)(i := 0)\<rparr>) s3
      in for_loop 128 (\<lambda>i s. s\<lparr>cmdq_alloc_map := (cmdq_alloc_map s)(i := 0),
                                 vcmdq_cons_indx := (vcmdq_cons_indx s)(i := 0),
                                 vcmdq_prod_indx := (vcmdq_prod_indx s)(i := 0),
                                 vcmdq_config := (vcmdq_config s)(i := 0),
                                 vcmdq_status := (vcmdq_status s)(i := 0),
                                 vcmdq_gerror := (vcmdq_gerror s)(i := 0),
                                 vcmdq_gerrorn := (vcmdq_gerrorn s)(i := 0),
                                 vcmdq_base_reg := (vcmdq_base_reg s)(i := 0),
                                 vcmdq_cons_indx_base := (vcmdq_cons_indx_base s)(i := 0)\<rparr>) s4)"

definition tegra241_cmdqv_read_vintf ::
  "Tegra241CMDQV \<Rightarrow> hwaddr \<Rightarrow> fault + (uint64_t \<times> Tegra241CMDQV)" where
  "tegra241_cmdqv_read_vintf s offset =
     (if offset = A_VINTF0_CONFIG then Inr (ucast (vintf_config s), s)
      else if offset = A_VINTF0_STATUS then Inr (ucast (vintf_status s), s)
      else if case_range A_VINTF0_CMDQ_ERR_MAP_0 A_VINTF0_CMDQ_ERR_MAP_3 offset then
        (let i = unat ((offset - A_VINTF0_CMDQ_ERR_MAP_0) div 4)
         in and_then (subscript len_vintf_cmdq_err_map (vintf_cmdq_err_map s) i)
              (\<lambda>v. Inr (ucast v, s)))
      else Inr (0, emit (Unhandled_read ''tegra241_cmdqv_read_vintf'' offset) s))"

text \<open>
  The byte offset of \<^verbatim>\<open>s->vcmdq_page0 + 0x80 * index + offset - 0x10000\<close> from the start of
  the page, and the load and the store through that pointer.
\<close>

definition page0_ptr :: "nat \<Rightarrow> hwaddr \<Rightarrow> nat" where
  "page0_ptr index offset = unat (0x80 * of_nat index + offset - 0x10000 :: 64 word)"

definition page0_load :: "Tegra241CMDQV \<Rightarrow> nat \<Rightarrow> fault + uint32_t" where
  "page0_load s p = (case vcmdq_page0 s of None \<Rightarrow> Inl NullDeref | Some pg \<Rightarrow> Inr (pg p))"

definition page0_store :: "Tegra241CMDQV \<Rightarrow> nat \<Rightarrow> uint32_t \<Rightarrow> fault + Tegra241CMDQV" where
  "page0_store s p v =
     (case vcmdq_page0 s of
        None \<Rightarrow> Inl NullDeref
      | Some pg \<Rightarrow> Inr (s\<lparr>vcmdq_page0 := Some (pg(p := v))\<rparr>))"

definition tegra241_cmdqv_read_vcmdq ::
  "Tegra241CMDQV \<Rightarrow> hwaddr \<Rightarrow> nat \<Rightarrow> fault + (uint64_t \<times> Tegra241CMDQV)" where
  "tegra241_cmdqv_read_vcmdq s offset index =
     (if offset = A_VCMDQ0_CONS_INDX then
        and_then (page0_load s (page0_ptr index offset)) (\<lambda>v.
        and_then (assign len_vcmdq (vcmdq_cons_indx s) index v) (\<lambda>a.
          Inr (ucast v, s\<lparr>vcmdq_cons_indx := a\<rparr>)))
      else if offset = A_VCMDQ0_PROD_INDX then
        and_then (page0_load s (page0_ptr index offset)) (\<lambda>v.
        and_then (assign len_vcmdq (vcmdq_prod_indx s) index v) (\<lambda>a.
          Inr (ucast v, s\<lparr>vcmdq_prod_indx := a\<rparr>)))
      else if offset = A_VCMDQ0_CONFIG then
        and_then (page0_load s (page0_ptr index offset)) (\<lambda>v.
        and_then (assign len_vcmdq (vcmdq_config s) index v) (\<lambda>a.
          Inr (ucast v, s\<lparr>vcmdq_config := a\<rparr>)))
      else if offset = A_VCMDQ0_STATUS then
        and_then (page0_load s (page0_ptr index offset)) (\<lambda>v.
        and_then (assign len_vcmdq (vcmdq_status s) index v) (\<lambda>a.
          Inr (ucast v, s\<lparr>vcmdq_status := a\<rparr>)))
      else if offset = A_VCMDQ0_GERROR then
        and_then (page0_load s (page0_ptr index offset)) (\<lambda>v.
        and_then (assign len_vcmdq (vcmdq_gerror s) index v) (\<lambda>a.
          Inr (ucast v, s\<lparr>vcmdq_gerror := a\<rparr>)))
      else if offset = A_VCMDQ0_GERRORN then
        and_then (page0_load s (page0_ptr index offset)) (\<lambda>v.
        and_then (assign len_vcmdq (vcmdq_gerrorn s) index v) (\<lambda>a.
          Inr (ucast v, s\<lparr>vcmdq_gerrorn := a\<rparr>)))
      else if offset = A_VCMDQ0_BASE_L then
        and_then (subscript len_vcmdq (vcmdq_base_reg s) index) (\<lambda>b. Inr (b, s))
      else if offset = A_VCMDQ0_BASE_H then
        and_then (subscript len_vcmdq (vcmdq_base_reg s) index) (\<lambda>b. Inr (drop_bit 32 b, s))
      else if offset = A_VCMDQ0_CONS_INDX_BASE_DRAM_L then
        and_then (subscript len_vcmdq (vcmdq_cons_indx_base s) index) (\<lambda>b. Inr (b, s))
      else if offset = A_VCMDQ0_CONS_INDX_BASE_DRAM_H then
        and_then (subscript len_vcmdq (vcmdq_cons_indx_base s) index) (\<lambda>b.
          Inr (drop_bit 32 b, s))
      else Inr (0, emit (Unhandled_read ''tegra241_cmdqv_read_vcmdq'' offset) s))"

text \<open>
  The return value is the errno-style result, which every caller drops. The registration of the
  two memory regions over the page is outside the model.
\<close>

definition tegra241_cmdqv_init_vcmdq_page0 :: "host \<Rightarrow> Tegra241CMDQV \<Rightarrow> int \<times> Tegra241CMDQV" where
  "tegra241_cmdqv_init_vcmdq_page0 h s =
     (let s1 = s\<lparr>vcmdq_page0 := shared_page h\<rparr>
      in if vcmdq_page0 s1 = None
         then (- EIO, emit (Error_report ''failed to mmap VCMDQ PAGE0'') s1)
         else (0, s1))"

text \<open>The common prologue of the two MMIO callbacks: map the page on first access.\<close>

definition map_page0 :: "host \<Rightarrow> Tegra241CMDQV \<Rightarrow> Tegra241CMDQV" where
  "map_page0 h s =
     (if vcmdq_page0 s = None then snd (tegra241_cmdqv_init_vcmdq_page0 h s) else s)"

definition tegra241_cmdqv_read ::
  "host \<Rightarrow> Tegra241CMDQV \<Rightarrow> hwaddr \<Rightarrow> nat \<Rightarrow> fault + (uint64_t \<times> Tegra241CMDQV)" where
  "tegra241_cmdqv_read h s0 offset sz =
     (let s = map_page0 h s0
      in if offset > 0x50000 then Inr (0, emit (Off_limit ''tegra241_cmdqv_read'' offset) s)
      else if offset = A_CONFIG then Inr (ucast (config s), s)
      else if offset = A_PARAM then Inr (ucast (param s), s)
      else if offset = A_STATUS then Inr (ucast (status s), s)
      else if case_range A_VI_ERR_MAP A_VI_ERR_MAP_1 offset then
        and_then (subscript len_vi_err_map (vi_err_map s) (unat ((offset - A_VI_ERR_MAP) div 2)))
          (\<lambda>v. Inr (ucast v, s))
      else if case_range A_VI_INT_MASK A_VI_INT_MASK_1 offset then
        and_then
          (subscript len_vi_int_mask (vi_int_mask s) (unat ((offset - A_VI_INT_MASK) div 2)))
          (\<lambda>v. Inr (ucast v, s))
      else if case_range A_CMDQ_ERR_MAP A_CMDQ_ERR_MAP_3 offset then
        and_then
          (subscript len_cmdq_err_map (cmdq_err_map s) (unat ((offset - A_CMDQ_ERR_MAP) div 4)))
          (\<lambda>v. Inr (ucast v, s))
      else if case_range A_CMDQ_ALLOC_MAP_0 A_CMDQ_ALLOC_MAP_127 offset then
        and_then
          (subscript len_cmdq_alloc_map (cmdq_alloc_map s)
             (unat ((offset - A_CMDQ_ALLOC_MAP_0) div 128)))
          (\<lambda>v. Inr (ucast v, s))
      else if case_range A_VINTF0_CONFIG A_VINTF0_CMDQ_ERR_MAP_3 offset then
        tegra241_cmdqv_read_vintf s offset
      else if case_range A_VCMDQ0_CONS_INDX A_VCMDQ127_GERRORN offset then
        (let index = unat ((offset - 0x10000) div 0x80)
         in tegra241_cmdqv_read_vcmdq s (offset - 0x80 * of_nat index) index)
      else if case_range A_VCMDQ0_BASE_L A_VCMDQ127_CONS_INDX_BASE_DRAM_H offset then
        (let index = unat ((offset - 0x20000) div 0x80)
         in tegra241_cmdqv_read_vcmdq s (offset - 0x80 * of_nat index) index)
      else Inr (0, emit (Unhandled_read ''tegra241_cmdqv_read'' offset) s))"

definition tegra241_cmdqv_write_vintf ::
  "Tegra241CMDQV \<Rightarrow> hwaddr \<Rightarrow> uint64_t \<Rightarrow> nat \<Rightarrow> Tegra241CMDQV" where
  "tegra241_cmdqv_write_vintf s offset val0 sz =
     (if offset = A_VINTF0_CONFIG then
        (let val = val0 AND NOT R_VINTF0_CONFIG_HYP_OWN_MASK;
             s1 = s\<lparr>vintf_config := ucast val\<rparr>
         in if val AND R_VINTF0_CONFIG_ENABLE_MASK \<noteq> 0
            then s1\<lparr>vintf_status := ucast R_VINTF0_STATUS_ENABLE_OK_MASK\<rparr>
            else s1\<lparr>vintf_status :=
                      ucast (ucast (vintf_status s1) AND NOT R_VINTF0_STATUS_ENABLE_OK_MASK)\<rparr>)
      else emit (Unhandled_write ''tegra241_cmdqv_write_vintf'' offset) s)"

text \<open>
  \<^verbatim>\<open>tegra241_cmdqv_setup_vcmdq\<close>. The three early returns come first, as in the source. Then
  an old queue object is destroyed in the kernel and its struct freed: from \<^verbatim>\<open>g_free\<close> on, the
  pointer that the slot still stores is \<open>Freed\<close>. Only a successful allocation assigns the
  slot again.
\<close>

definition tegra241_cmdqv_setup_vcmdq ::
  "host \<Rightarrow> Tegra241CMDQV \<Rightarrow> nat \<Rightarrow> fault + (int \<times> Tegra241CMDQV)" where
  "tegra241_cmdqv_setup_vcmdq h s index =
     (let base_mask = R_VCMDQ0_BASE_L_ADDR_MASK OR push_bit 32 R_VCMDQ0_BASE_H_ADDR_MASK
      in and_then (subscript len_vcmdq (vcmdq_base_reg s) index) (\<lambda>b.
         let data = \<lparr>vcmdq_id = of_nat index,
                     vcmdq_log2size = ucast (b AND R_VCMDQ0_BASE_L_LOG2SIZE_MASK),
                     vcmdq_base = b AND base_mask\<rparr>
         in and_then (subscript len_vqueue (vqueue s) index) (\<lambda>vq.
            case bs_viommu h of
              None \<Rightarrow> Inr (- ENODEV, s)
            | Some vi \<Rightarrow>
                if vcmdq_log2size data = 0 then Inr (- EINVAL, s)
                else if \<not> is_ram h (vcmdq_base data) then Inr (- EINVAL, s)
                else and_then
                  (case vq of
                     Null \<Rightarrow> Inr s
                   | Freed \<Rightarrow> Inl UseAfterFree
                   | Valid q \<Rightarrow>
                       Inr ((iommufd_backend_free_id h (iommufd vi) (vqueue_id q) s)
                              \<lparr>vqueue := (vqueue s)(index := Freed)\<rparr>))
                  (\<lambda>s1.
                     let s2 = (if viommu s1 = None then s1\<lparr>viommu := Some vi\<rparr> else s1);
                         r = iommufd_viommu_alloc_queue h vi data s2
                     in case fst r of
                          None \<Rightarrow>
                            Inr (- ENODEV, emit (Error_report ''failed to allocate VCMDQ'') (snd r))
                        | Some q' \<Rightarrow>
                            Inr (0, (snd r)\<lparr>vqueue := (vqueue (snd r))(index := Valid q')\<rparr>)))))"

definition tegra241_cmdqv_write_vcmdq ::
  "host \<Rightarrow> Tegra241CMDQV \<Rightarrow> hwaddr \<Rightarrow> nat \<Rightarrow> uint64_t \<Rightarrow> nat \<Rightarrow> fault + Tegra241CMDQV" where
  "tegra241_cmdqv_write_vcmdq h s offset index val sz =
     (if offset = A_VCMDQ0_CONS_INDX then
        and_then (assign len_vcmdq (vcmdq_cons_indx s) index (ucast val)) (\<lambda>a.
          page0_store (s\<lparr>vcmdq_cons_indx := a\<rparr>) (page0_ptr index offset) (ucast val))
      else if offset = A_VCMDQ0_PROD_INDX then
        and_then (assign len_vcmdq (vcmdq_prod_indx s) index (ucast val)) (\<lambda>a.
          page0_store (s\<lparr>vcmdq_prod_indx := a\<rparr>) (page0_ptr index offset) (ucast val))
      else if offset = A_VCMDQ0_CONFIG then
        and_then (assign len_vcmdq (vcmdq_config s) index (ucast val)) (\<lambda>a.
          page0_store (s\<lparr>vcmdq_config := a\<rparr>) (page0_ptr index offset) (ucast val))
      else if offset = A_VCMDQ0_GERRORN then
        and_then (assign len_vcmdq (vcmdq_gerrorn s) index (ucast val)) (\<lambda>a.
          page0_store (s\<lparr>vcmdq_gerrorn := a\<rparr>) (page0_ptr index offset) (ucast val))
      else if offset = A_VCMDQ0_BASE_L then
        and_then (subscript len_vcmdq (vcmdq_base_reg s) index) (\<lambda>b.
          let b' = (if sz = 8 then val
                    else if sz = 4 then (b AND 0xffffffff00000000) OR (val AND 0xffffffff)
                    else b)
          in map_sum id snd
               (tegra241_cmdqv_setup_vcmdq h
                  (s\<lparr>vcmdq_base_reg := (vcmdq_base_reg s)(index := b')\<rparr>) index))
      else if offset = A_VCMDQ0_BASE_H then
        and_then (subscript len_vcmdq (vcmdq_base_reg s) index) (\<lambda>b.
          let b' = (b AND 0xffffffff) OR push_bit 32 val
          in map_sum id snd
               (tegra241_cmdqv_setup_vcmdq h
                  (s\<lparr>vcmdq_base_reg := (vcmdq_base_reg s)(index := b')\<rparr>) index))
      else if offset = A_VCMDQ0_CONS_INDX_BASE_DRAM_L then
        and_then (subscript len_vcmdq (vcmdq_cons_indx_base s) index) (\<lambda>b.
          let b' = (if sz = 8 then val
                    else if sz = 4 then (b AND 0xffffffff) OR (val AND 0xffffffff)
                    else b)
          in Inr (s\<lparr>vcmdq_cons_indx_base := (vcmdq_cons_indx_base s)(index := b')\<rparr>))
      else if offset = A_VCMDQ0_CONS_INDX_BASE_DRAM_H then
        and_then (subscript len_vcmdq (vcmdq_cons_indx_base s) index) (\<lambda>b.
          let b' = (b AND push_bit 32 0xffffffff) OR push_bit 32 val
          in Inr (s\<lparr>vcmdq_cons_indx_base := (vcmdq_cons_indx_base s)(index := b')\<rparr>))
      else Inr (emit (Unhandled_write ''tegra241_cmdqv_write_vcmdq'' offset) s))"

text \<open>
  \<^verbatim>\<open>tegra241_cmdqv_write\<close>. The two alias cases subtract 0x20000 and fall through into the case
  below them; \<open>window_10000\<close> and \<open>window_20000\<close> are the bodies they fall into.
\<close>

definition tegra241_cmdqv_write ::
  "host \<Rightarrow> Tegra241CMDQV \<Rightarrow> hwaddr \<Rightarrow> uint64_t \<Rightarrow> nat \<Rightarrow> fault + Tegra241CMDQV" where
  "tegra241_cmdqv_write h s0 offset val sz =
     (let s = map_page0 h s0;
          window_10000 = (\<lambda>offset.
            let index = unat ((offset - 0x10000) div 0x80)
            in tegra241_cmdqv_write_vcmdq h s (offset - 0x80 * of_nat index) index val sz);
          window_20000 = (\<lambda>offset.
            let index = unat ((offset - 0x20000) div 0x80)
            in tegra241_cmdqv_write_vcmdq h s (offset - 0x80 * of_nat index) index val sz)
      in if offset > 0x50000 then Inr (emit (Off_limit ''tegra241_cmdqv_write'' offset) s)
      else if offset = A_CONFIG then Inr (s\<lparr>config := ucast val\<rparr>)
      else if case_range A_VI_INT_MASK A_VI_INT_MASK_1 offset then
        and_then
          (assign len_vi_int_mask (vi_int_mask s) (unat ((offset - A_VI_INT_MASK) div 2))
             (ucast val))
          (\<lambda>a. Inr (s\<lparr>vi_int_mask := a\<rparr>))
      else if case_range A_CMDQ_ALLOC_MAP_0 A_CMDQ_ALLOC_MAP_127 offset then
        and_then
          (assign len_cmdq_alloc_map (cmdq_alloc_map s)
             (unat ((offset - A_CMDQ_ALLOC_MAP_0) div 128)) (ucast val))
          (\<lambda>a. Inr (s\<lparr>cmdq_alloc_map := a\<rparr>))
      else if case_range A_VINTF0_CONFIG A_VINTF0_CMDQ_ERR_MAP_3 offset then
        Inr (tegra241_cmdqv_write_vintf s offset val sz)
      else if case_range A_VI_VCMDQ0_CONS_INDX A_VI_VCMDQ127_GERRORN offset then
        window_10000 (offset - 0x20000)
      else if case_range A_VCMDQ0_CONS_INDX A_VCMDQ127_GERRORN offset then
        window_10000 offset
      else if case_range A_VI_VCMDQ0_BASE_L A_VI_VCMDQ127_CONS_INDX_BASE_DRAM_H offset then
        window_20000 (offset - 0x20000)
      else if case_range A_VCMDQ0_BASE_L A_VCMDQ127_CONS_INDX_BASE_DRAM_H offset then
        window_20000 offset
      else Inr (emit (Unhandled_write ''tegra241_cmdqv_write'' offset) s))"

text \<open>
  \<^verbatim>\<open>cmdqv_reset\<close>: every stored queue is destroyed through \<^verbatim>\<open>s->viommu\<close>, its struct freed
  and the slot set to null; then the registers are initialised. \<open>cmdqv_reset_slot\<close> is the body
  of the loop over the slots.
\<close>

definition cmdqv_reset_slot :: "host \<Rightarrow> nat \<Rightarrow> Tegra241CMDQV \<Rightarrow> fault + Tegra241CMDQV" where
  "cmdqv_reset_slot h i s =
     (case vqueue s i of
        Null \<Rightarrow> Inr s
      | Freed \<Rightarrow> Inl UseAfterFree
      | Valid q \<Rightarrow>
          (case viommu s of
             None \<Rightarrow> Inl NullDeref
           | Some vi \<Rightarrow>
               Inr ((iommufd_backend_free_id h (iommufd vi) (vqueue_id q) s)
                      \<lparr>vqueue := (vqueue s)(i := Null)\<rparr>)))"

definition cmdqv_reset :: "host \<Rightarrow> Tegra241CMDQV \<Rightarrow> fault + Tegra241CMDQV" where
  "cmdqv_reset h s0 =
     and_then (for_loop_e 128 (cmdqv_reset_slot h) s0) (\<lambda>s1. Inr (cmdqv_init_regs s1))"

section \<open>Requests of the iommufd backend\<close>

text \<open>
  The kernel is a parameter. An ioctl answers with its return value and the \<^verbatim>\<open>errno\<close> it
  leaves (read by the caller only after a non-zero return); a request that has an output field
  answers with the request struct as the kernel leaves it. For the unmap request the kernel
  carries a state of its own from one call to the next.
\<close>

type_synonym ioctl_answer = "int \<times> int"

record iommu_ioas_unmap =
  unmap_ioas_id :: uint32_t
  unmap_iova :: uint64_t
  unmap_length :: uint64_t

definition iommufd_backend_unmap_dma ::
  "('k \<Rightarrow> int \<Rightarrow> iommu_ioas_unmap \<Rightarrow> ioctl_answer \<times> 'k) \<Rightarrow> 'k \<Rightarrow> IOMMUFDBackend
     \<Rightarrow> uint32_t \<Rightarrow> hwaddr \<Rightarrow> uint64_t \<Rightarrow> (int \<times> event list) \<times> 'k" where
  "iommufd_backend_unmap_dma ioctl k be ioas_id iova sz =
     (let unmap = \<lparr>unmap_ioas_id = ioas_id, unmap_iova = iova, unmap_length = sz\<rparr>;
          answer = ioctl k (fd be) unmap;
          ret = fst (fst answer);
          errno = snd (fst answer);
          ret1 = (if ret \<noteq> 0 \<and> errno = ENOENT then 0 else ret)
      in if ret1 \<noteq> 0
         then ((- errno, [Error_report ''IOMMU_IOAS_UNMAP failed'']), snd answer)
         else ((ret1, []), snd answer))"

record iommu_hwpt_invalidate =
  inv_hwpt_id :: uint32_t
  inv_data_type :: uint32_t
  inv_entry_len :: uint32_t
  inv_entry_num :: uint32_t
  inv_data_uptr :: uint64_t

record iommu_dev_invalidate =
  dinv_dev_id :: uint32_t
  dinv_data_type :: uint32_t
  dinv_entry_len :: uint32_t
  dinv_entry_num :: uint32_t
  dinv_data_uptr :: uint64_t

text \<open>A call returns, or \<^verbatim>\<open>g_assert\<close> ends the process.\<close>

datatype 'a outcome = Returned 'a | Aborted

text \<open>
  The two invalidation wrappers hand back the return value, the caller's \<^verbatim>\<open>*entry_num\<close> after
  the call and what they reported. On a rejected call the source reports first
  (\<^verbatim>\<open>error_report\<close> with \<^verbatim>\<open>strerror(errno)\<close>) and only then reads \<^verbatim>\<open>errno\<close> for the return
  value. What the reporting leaves in \<^verbatim>\<open>errno\<close> is the parameter \<open>report\<close>, a function of the
  \<^verbatim>\<open>errno\<close> the ioctl left: the identity when the reporting does not touch it.
\<close>

definition iommufd_backend_invalidate_cache ::
  "(int \<Rightarrow> iommu_hwpt_invalidate \<Rightarrow> ioctl_answer \<times> iommu_hwpt_invalidate) \<Rightarrow> (int \<Rightarrow> int)
     \<Rightarrow> IOMMUFDBackend \<Rightarrow> uint32_t \<Rightarrow> uint32_t \<Rightarrow> uint32_t \<Rightarrow> uint32_t \<Rightarrow> uint64_t
     \<Rightarrow> (int \<times> uint32_t \<times> event list) outcome" where
  "iommufd_backend_invalidate_cache ioctl report be hwpt_id data_type entry_len entry_num
       data_ptr =
     (let cache0 = \<lparr>inv_hwpt_id = hwpt_id, inv_data_type = data_type,
                     inv_entry_len = entry_len, inv_entry_num = entry_num,
                     inv_data_uptr = data_ptr\<rparr>;
          answer = ioctl (fd be) cache0;
          ret = fst (fst answer);
          errno = snd (fst answer);
          cache = snd answer
      in if ret \<noteq> 0
         then (let errno_reported = report errno
               in Returned (- errno_reported, inv_entry_num cache,
                            [Error_report ''IOMMU_HWPT_INVALIDATE failed'']))
         else if entry_num = inv_entry_num cache then Returned (ret, entry_num, [])
         else Aborted)"

definition iommufd_backend_invalidate_dev_cache ::
  "(int \<Rightarrow> iommu_dev_invalidate \<Rightarrow> ioctl_answer \<times> iommu_dev_invalidate) \<Rightarrow> (int \<Rightarrow> int)
     \<Rightarrow> IOMMUFDBackend \<Rightarrow> uint32_t \<Rightarrow> uint32_t \<Rightarrow> uint32_t \<Rightarrow> uint32_t \<Rightarrow> uint64_t
     \<Rightarrow> (int \<times> uint32_t \<times> event list) outcome" where
  "iommufd_backend_invalidate_dev_cache ioctl report be dev_id data_type entry_len entry_num
       data_ptr =
     (let cache0 = \<lparr>dinv_dev_id = dev_id, dinv_data_type = data_type,
                     dinv_entry_len = entry_len, dinv_entry_num = entry_num,
                     dinv_data_uptr = data_ptr\<rparr>;
          answer = ioctl (fd be) cache0;
          ret = fst (fst answer);
          errno = snd (fst answer);
          cache = snd answer
      in if ret \<noteq> 0
         then (let errno_reported = report errno
               in Returned (- errno_reported, dinv_entry_num cache,
                            [Error_report ''IOMMU_DEV_INVALIDATE failed'']))
         else if entry_num = dinv_entry_num cache then Returned (ret, entry_num, [])
         else Aborted)"

section \<open>Predicates and sample inputs of the verification\<close>

text \<open>The shadow registers of two device states agree.\<close>

definition same_regs :: "Tegra241CMDQV \<Rightarrow> Tegra241CMDQV \<Rightarrow> bool" where
  "same_regs s s' \<longleftrightarrow>
     config s' = config s \<and> param s' = param s \<and> status s' = status s \<and>
     vi_err_map s' = vi_err_map s \<and> vi_int_mask s' = vi_int_mask s \<and>
     cmdq_err_map s' = cmdq_err_map s \<and> cmdq_alloc_map s' = cmdq_alloc_map s \<and>
     vintf_config s' = vintf_config s \<and> vintf_status s' = vintf_status s \<and>
     vintf_cmdq_err_map s' = vintf_cmdq_err_map s \<and>
     vcmdq_cons_indx s' = vcmdq_cons_indx s \<and> vcmdq_prod_indx s' = vcmdq_prod_indx s \<and>
     vcmdq_config s' = vcmdq_config s \<and> vcmdq_status s' = vcmdq_status s \<and>
     vcmdq_gerror s' = vcmdq_gerror s \<and> vcmdq_gerrorn s' = vcmdq_gerrorn s \<and>
     vcmdq_base_reg s' = vcmdq_base_reg s \<and> vcmdq_cons_indx_base s' = vcmdq_cons_indx_base s"

fun is_diagnostic :: "event \<Rightarrow> bool" where
  "is_diagnostic (Unhandled_read f a) = True"
| "is_diagnostic (Unhandled_write f a) = True"
| "is_diagnostic (Off_limit f a) = True"
| "is_diagnostic (Error_report m) = False"
| "is_diagnostic (Ioctl_destroy d i) = False"
| "is_diagnostic (Ioctl_vqueue_alloc d i p) = False"

fun is_vqueue_alloc :: "event \<Rightarrow> bool" where
  "is_vqueue_alloc (Ioctl_vqueue_alloc d i p) = True"
| "is_vqueue_alloc (Unhandled_read f a) = False"
| "is_vqueue_alloc (Unhandled_write f a) = False"
| "is_vqueue_alloc (Off_limit f a) = False"
| "is_vqueue_alloc (Error_report m) = False"
| "is_vqueue_alloc (Ioctl_destroy d i) = False"

text \<open>
  No slot stores a pointer to a freed queue, and the device knows its viommu when it stores a
  queue: what \<^verbatim>\<open>cmdqv_reset\<close> dereferences is there.
\<close>

definition slots_valid :: "Tegra241CMDQV \<Rightarrow> bool" where
  "slots_valid s \<longleftrightarrow>
     (\<forall>i<128. vqueue s i \<noteq> Freed \<and> (vqueue s i \<noteq> Null \<longrightarrow> viommu s \<noteq> None))"

text \<open>
  A device as \<^verbatim>\<open>cmdqv_reset\<close> leaves it when no queue was ever set up, with the shared page
  mapped and zeroed; a backend on descriptor 3 with one viommu of id 1; a host whose kernel
  grants every queue allocation with id 7, and one whose kernel refuses them.
\<close>

definition dev0 :: Tegra241CMDQV where
  "dev0 = \<lparr>viommu = None, vqueue = (\<lambda>_. Null), vcmdq_page0 = Some (\<lambda>_. 0),
           config = 0x00020403, param = 0x00004011, status = 1,
           vi_err_map = (\<lambda>_. 0), vi_int_mask = (\<lambda>_. 0), cmdq_err_map = (\<lambda>_. 0),
           cmdq_alloc_map = (\<lambda>_. 0), vintf_config = 0, vintf_status = 0,
           vintf_cmdq_err_map = (\<lambda>_. 0), vcmdq_cons_indx = (\<lambda>_. 0),
           vcmdq_prod_indx = (\<lambda>_. 0), vcmdq_config = (\<lambda>_. 0), vcmdq_status = (\<lambda>_. 0),
           vcmdq_gerror = (\<lambda>_. 0), vcmdq_gerrorn = (\<lambda>_. 0), vcmdq_base_reg = (\<lambda>_. 0),
           vcmdq_cons_indx_base = (\<lambda>_. 0), trace = []\<rparr>"

definition be0 :: IOMMUFDBackend where
  "be0 = \<lparr>fd = 3, owned = True, users = 1\<rparr>"

definition viommu0 :: IOMMUFDViommu where
  "viommu0 = \<lparr>iommufd = be0, s2_hwpt_id = 5, viommu_id = 1\<rparr>"

definition host_grants :: host where
  "host_grants = \<lparr>shared_page = Some (\<lambda>_. 0), bs_viommu = Some viommu0,
                  is_ram = (\<lambda>_. True), ioctl_destroy = (\<lambda>_ _. 0),
                  ioctl_vqueue_alloc = (\<lambda>_ _ _. Some 7)\<rparr>"

definition host_refuses :: host where
  "host_refuses = host_grants\<lparr>ioctl_vqueue_alloc := (\<lambda>_ _ _. None)\<rparr>"

text \<open>A device that stores one live queue, in slot 0.\<close>

definition dev1 :: Tegra241CMDQV where
  "dev1 = dev0\<lparr>viommu := Some viommu0, vqueue := (\<lambda>_. Null)(0 := Valid \<lparr>vqueue_id = 7\<rparr>)\<rparr>"

text \<open>The same device with a base address above 4 GiB in the shadow base of queue 5.\<close>

definition dev2 :: Tegra241CMDQV where
  "dev2 = dev1\<lparr>vcmdq_base_reg := (\<lambda>_. 0)(5 := 0xABCD00000000)\<rparr>"

section \<open>Verification\<close>

subsection \<open>The page mapping and the trace leave the registers alone\<close>

lemma map_page0_cases:
  "map_page0 h s = s \<or> map_page0 h s = s\<lparr>vcmdq_page0 := shared_page h\<rparr> \<or>
   map_page0 h s = s\<lparr>vcmdq_page0 := shared_page h,
                      trace := trace s @ [Error_report ''failed to mmap VCMDQ PAGE0'']\<rparr>"
  by (simp add: map_page0_def tegra241_cmdqv_init_vcmdq_page0_def emit_def Let_def)

lemma map_page0_keeps [simp]:
  "viommu (map_page0 h s) = viommu s"
  "vqueue (map_page0 h s) = vqueue s"
  "config (map_page0 h s) = config s"
  "param (map_page0 h s) = param s"
  "status (map_page0 h s) = status s"
  "vi_err_map (map_page0 h s) = vi_err_map s"
  "vi_int_mask (map_page0 h s) = vi_int_mask s"
  "cmdq_err_map (map_page0 h s) = cmdq_err_map s"
  "cmdq_alloc_map (map_page0 h s) = cmdq_alloc_map s"
  "vintf_config (map_page0 h s) = vintf_config s"
  "vintf_status (map_page0 h s) = vintf_status s"
  "vintf_cmdq_err_map (map_page0 h s) = vintf_cmdq_err_map s"
  "vcmdq_cons_indx (map_page0 h s) = vcmdq_cons_indx s"
  "vcmdq_prod_indx (map_page0 h s) = vcmdq_prod_indx s"
  "vcmdq_config (map_page0 h s) = vcmdq_config s"
  "vcmdq_status (map_page0 h s) = vcmdq_status s"
  "vcmdq_gerror (map_page0 h s) = vcmdq_gerror s"
  "vcmdq_gerrorn (map_page0 h s) = vcmdq_gerrorn s"
  "vcmdq_base_reg (map_page0 h s) = vcmdq_base_reg s"
  "vcmdq_cons_indx_base (map_page0 h s) = vcmdq_cons_indx_base s"
  using map_page0_cases [of h s] by auto

lemma emit_keeps [simp]:
  "viommu (emit e s) = viommu s"
  "vqueue (emit e s) = vqueue s"
  "vcmdq_page0 (emit e s) = vcmdq_page0 s"
  "vcmdq_base_reg (emit e s) = vcmdq_base_reg s"
  "trace (emit e s) = trace s @ [e]"
  "same_regs s0 (emit e s) = same_regs s0 s"
  by (simp_all add: emit_def same_regs_def)

lemma same_regs_map_page0 [simp]: "same_regs s (map_page0 h s)"
  by (simp add: same_regs_def)

subsection \<open>Offsets past the window\<close>

lemma write_at_0x50000:
  "tegra241_cmdqv_write h s 0x50000 v sz =
     Inr (emit (Unhandled_write ''tegra241_cmdqv_write'' 0x50000) (map_page0 h s))"
  unfolding tegra241_cmdqv_write_def Let_def
  by (simp add: case_range_def regs)

lemma read_at_0x50000:
  "tegra241_cmdqv_read h s 0x50000 sz =
     Inr (0, emit (Unhandled_read ''tegra241_cmdqv_read'' 0x50000) (map_page0 h s))"
  unfolding tegra241_cmdqv_read_def Let_def
  by (simp add: case_range_def regs)

lemma write_above_0x50000:
  "0x50000 < off \<Longrightarrow> tegra241_cmdqv_write h s off v sz =
     Inr (emit (Off_limit ''tegra241_cmdqv_write'' off) (map_page0 h s))"
  unfolding tegra241_cmdqv_write_def Let_def by simp

lemma read_above_0x50000:
  "0x50000 < off \<Longrightarrow> tegra241_cmdqv_read h s off sz =
     Inr (0, emit (Off_limit ''tegra241_cmdqv_read'' off) (map_page0 h s))"
  unfolding tegra241_cmdqv_read_def Let_def by simp

text \<open>
  C6. An access at an offset at or past 0x50000 is diagnosed and nothing else: the write
  changes no shadow register and no queue slot and appends one diagnostic to the trace, the
  read returns 0.
\<close>

theorem off_window_access_ignored:
  assumes "0x50000 \<le> off"
  shows "(\<exists>s' d. tegra241_cmdqv_write h s off v sz = Inr s' \<and> same_regs s s'
            \<and> vqueue s' = vqueue s \<and> viommu s' = viommu s
            \<and> is_diagnostic d \<and> trace s' = trace (map_page0 h s) @ [d])
       \<and> (\<exists>s''. tegra241_cmdqv_read h s off sz = Inr (0, s''))"
proof (cases "off = 0x50000")
  case True
  then show ?thesis
    by (simp add: write_at_0x50000 read_at_0x50000)
next
  case False
  with assms have "0x50000 < off" by simp
  then show ?thesis
    by (simp add: write_above_0x50000 read_above_0x50000)
qed

theorem off_window_access_ignored_witness:
  "(\<exists>s' d. tegra241_cmdqv_write host_grants dev1 0x50000 0xffff 4 = Inr s' \<and> same_regs dev1 s'
            \<and> vqueue s' = vqueue dev1 \<and> viommu s' = viommu dev1
            \<and> is_diagnostic d \<and> trace s' = trace (map_page0 host_grants dev1) @ [d])
       \<and> (\<exists>s''. tegra241_cmdqv_read host_grants dev1 0x50000 4 = Inr (0, s''))"
  using off_window_access_ignored [where off = "0x50000" and h = host_grants and s = dev1 and v = "0xffff" and sz = 4] by simp

subsection \<open>The virtual-interface config register\<close>

lemma and_one_neq_0: "(w :: 'a::len word) AND 1 \<noteq> 0 \<longleftrightarrow> bit w 0"
  by (simp add: and_one_eq bit_0 mod_2_eq_odd)

lemma enable_test:
  "((v::64 word) AND NOT (push_bit 17 1)) AND 1 = 0 \<longleftrightarrow> \<not> bit v 0"
proof -
  have "bit (v AND NOT (push_bit 17 1)) 0 \<longleftrightarrow> bit v 0"
    by (simp add: bit_simps)
  with and_one_neq_0 [of "v AND NOT (push_bit 17 1)"] show ?thesis
    by blast
qed

lemma hyp_own_ucast:
  "(ucast ((v::64 word) AND NOT (push_bit 17 1)) :: 32 word) = ucast v AND NOT (push_bit 17 1)"
  by (rule bit_word_eqI) (auto simp add: bit_simps)

lemma enable_ok_clear:
  "(ucast ((ucast (x::32 word) :: 64 word) AND - 2) :: 32 word) = x AND - 2"
  by (rule bit_word_eqI) (auto simp add: bit_simps)

lemma bit_hyp_own_cleared:
  "bit ((ucast (v::64 word) :: 32 word) AND NOT (push_bit 17 1)) n \<longleftrightarrow>
     n < 32 \<and> n \<noteq> 17 \<and> bit v n"
  by (auto simp add: bit_simps simp del: push_bit_of_1)

lemma write_vintf_config:
  "tegra241_cmdqv_write h s A_VINTF0_CONFIG v sz =
     Inr ((map_page0 h s)\<lparr>vintf_config := ucast v AND NOT (push_bit 17 1),
            vintf_status := (if bit v 0 then 1 else vintf_status s AND NOT 1)\<rparr>)"
  unfolding tegra241_cmdqv_write_def tegra241_cmdqv_write_vintf_def Let_def
  by (simp add: case_range_def regs enable_test hyp_own_ucast enable_ok_clear
        del: push_bit_of_1)

lemma read_vintf_config:
  "tegra241_cmdqv_read h s A_VINTF0_CONFIG sz = Inr (ucast (vintf_config s), map_page0 h s)"
  unfolding tegra241_cmdqv_read_def tegra241_cmdqv_read_vintf_def Let_def
  by (simp add: case_range_def regs)

lemma read_vintf_status:
  "tegra241_cmdqv_read h s A_VINTF0_STATUS sz = Inr (ucast (vintf_status s), map_page0 h s)"
  unfolding tegra241_cmdqv_read_def tegra241_cmdqv_read_vintf_def Let_def
  by (simp add: case_range_def regs)

text \<open>
  C5. A write of \<open>v\<close> to the virtual-interface config register stores the low 32 bits of \<open>v\<close>
  with bit 17 (HYP_OWN) cleared; afterwards bit 0 (ENABLE_OK) of the status register is set
  exactly when bit 0 (ENABLE) of \<open>v\<close> is; reading the config register returns the stored value,
  whose bit 17 is clear, and reading the status register returns the status.
\<close>

theorem vintf_config_write_strips_hyp_own:
  "\<exists>s'. tegra241_cmdqv_write h s A_VINTF0_CONFIG v sz = Inr s'
     \<and> vintf_config s' = ucast v AND NOT (push_bit 17 1)
     \<and> (\<forall>n. bit (vintf_config s') n \<longleftrightarrow> n < 32 \<and> n \<noteq> 17 \<and> bit v n)
     \<and> (bit (vintf_status s') 0 \<longleftrightarrow> bit v 0)
     \<and> (\<exists>r s''. tegra241_cmdqv_read h' s' A_VINTF0_CONFIG sz' = Inr (r, s'')
           \<and> r = ucast (vintf_config s') \<and> \<not> bit r 17 \<and> vintf_config s'' = vintf_config s')
     \<and> (\<exists>r s''. tegra241_cmdqv_read h' s' A_VINTF0_STATUS sz' = Inr (r, s'')
           \<and> (bit r 0 \<longleftrightarrow> bit v 0))"
proof -
  let ?c = "(ucast v :: 32 word) AND NOT (push_bit 17 1)"
  let ?s' = "(map_page0 h s)\<lparr>vintf_config := ?c,
               vintf_status := (if bit v 0 then 1 else vintf_status s AND NOT 1)\<rparr>"
  have w: "tegra241_cmdqv_write h s A_VINTF0_CONFIG v sz = Inr ?s'"
    by (rule write_vintf_config)
  have c: "vintf_config ?s' = ?c"
    by simp
  have b: "\<forall>n. bit (vintf_config ?s') n \<longleftrightarrow> n < 32 \<and> n \<noteq> 17 \<and> bit v n"
    unfolding c by (simp only: bit_hyp_own_cleared) simp
  have st: "bit (vintf_status ?s') 0 \<longleftrightarrow> bit v 0"
    by (simp add: bit_simps)
  have r17: "\<not> bit (ucast (vintf_config ?s') :: 64 word) 17"
    using b by (simp add: bit_simps del: push_bit_of_1)
  have rc: "\<exists>r s''. tegra241_cmdqv_read h' ?s' A_VINTF0_CONFIG sz' = Inr (r, s'')
           \<and> r = ucast (vintf_config ?s') \<and> \<not> bit r 17 \<and> vintf_config s'' = vintf_config ?s'"
    using r17 by (simp add: read_vintf_config del: push_bit_of_1)
  have rs: "\<exists>r s''. tegra241_cmdqv_read h' ?s' A_VINTF0_STATUS sz' = Inr (r, s'')
           \<and> (bit r 0 \<longleftrightarrow> bit v 0)"
    using st by (simp add: read_vintf_status bit_simps)
  from w c b st rc rs show ?thesis
    by blast
qed

subsection \<open>The allocation-map table\<close>

text \<open>
  C2. The table holds entry \<open>i\<close> at 0x200 + 4 * i, and the source divides the distance from the
  table base by 128. At offset 0x204, the offset of entry 1, a write stores into entry 0 and
  leaves entry 1 as it was, and a read returns entry 0.
\<close>

theorem alloc_map_entry_1_decodes_to_entry_0:
  "tegra241_cmdqv_write h s 0x204 v sz =
     Inr ((map_page0 h s)\<lparr>cmdq_alloc_map := (cmdq_alloc_map s)(0 := ucast v)\<rparr>)
   \<and> tegra241_cmdqv_read h s 0x204 sz = Inr (ucast (cmdq_alloc_map s 0), map_page0 h s)
   \<and> unat (((0x204 :: hwaddr) - A_CMDQ_ALLOC_MAP_0) div 4) = 1"
  by (simp add: tegra241_cmdqv_write_def tegra241_cmdqv_read_def Let_def case_range_def
        regs lens assign_def subscript_def and_then_def)

subsection \<open>Subscripts of the shadow arrays\<close>

text \<open>
  C10. The case ranges of the two error maps and of the interrupt mask admit offsets whose
  subscript is past the array: \<^verbatim>\<open>vi_err_map\<close> at 0x18 and \<^verbatim>\<open>vi_int_mask\<close> at 0x20 get
  subscript 2 (the distance is divided by 2, the stride is 4), \<^verbatim>\<open>cmdq_err_map\<close> at 0x2c and
  0x30 gets subscripts 2 and 3 (the range covers four words, the array has two).
\<close>

theorem shadow_subscript_out_of_bounds:
  "tegra241_cmdqv_read h s 0x18 sz = Inl OutOfBounds
   \<and> tegra241_cmdqv_read h s 0x20 sz = Inl OutOfBounds
   \<and> tegra241_cmdqv_write h s 0x20 v sz = Inl OutOfBounds
   \<and> tegra241_cmdqv_read h s 0x2c sz = Inl OutOfBounds
   \<and> tegra241_cmdqv_read h s 0x30 sz = Inl OutOfBounds"
  by (simp add: tegra241_cmdqv_write_def tegra241_cmdqv_read_def Let_def case_range_def
        regs lens assign_def subscript_def and_then_def)

subsection \<open>Unmapping a range\<close>

text \<open>
  C8. Let the kernel fail an unmap request with ENOENT, and fail the same request with ENOENT
  again in the state the first call leaves. Then both calls of the wrapper return 0. A failure
  with any other (positive) errno is returned negated, a negative value.
\<close>

theorem unmap_dma_enoent_is_success:
  fixes ioctl :: "'k \<Rightarrow> int \<Rightarrow> iommu_ioas_unmap \<Rightarrow> ioctl_answer \<times> 'k"
  assumes req: "req = \<lparr>unmap_ioas_id = ioas_id, unmap_iova = iova, unmap_length = sz\<rparr>"
  shows "(\<forall>r k'. r \<noteq> 0 \<and> ioctl k (fd be) req = ((r, ENOENT), k') \<longrightarrow>
            iommufd_backend_unmap_dma ioctl k be ioas_id iova sz = ((0, []), k') \<and>
            (\<forall>r' k''. r' \<noteq> 0 \<and> ioctl k' (fd be) req = ((r', ENOENT), k'') \<longrightarrow>
               iommufd_backend_unmap_dma ioctl k' be ioas_id iova sz = ((0, []), k'')))
       \<and> (\<forall>r e k'. r \<noteq> 0 \<and> 0 < e \<and> e \<noteq> ENOENT \<and> ioctl k (fd be) req = ((r, e), k') \<longrightarrow>
            fst (fst (iommufd_backend_unmap_dma ioctl k be ioas_id iova sz)) = - e \<and>
            fst (fst (iommufd_backend_unmap_dma ioctl k be ioas_id iova sz)) < 0)"
  using req by (auto simp add: iommufd_backend_unmap_dma_def Let_def)

text \<open>
  A kernel with no mapping at all: every unmap fails with ENOENT; and one that fails with
  EINVAL (22).
\<close>

theorem unmap_dma_enoent_is_success_witness:
  "iommufd_backend_unmap_dma (\<lambda>k d r. ((- 1, ENOENT), k + 1)) (0::nat) be0 2 0x1000 0x1000
      = ((0, []), 1)
   \<and> iommufd_backend_unmap_dma (\<lambda>k d r. ((- 1, ENOENT), k + 1)) (1::nat) be0 2 0x1000 0x1000
      = ((0, []), 2)
   \<and> fst (fst (iommufd_backend_unmap_dma (\<lambda>k d r. ((- 1, 22), k + 1)) (0::nat) be0 2 0x1000
        0x1000)) = - 22"
  using unmap_dma_enoent_is_success
    [where ioctl = "\<lambda>k d r. ((- 1, ENOENT), k + 1)" and k = "0::nat" and be = be0
       and ioas_id = 2 and iova = "0x1000" and sz = "0x1000", OF refl]
    unmap_dma_enoent_is_success
    [where ioctl = "\<lambda>k d r. ((- 1, 22), k + 1)" and k = "0::nat" and be = be0
       and ioas_id = 2 and iova = "0x1000" and sz = "0x1000", OF refl]
  by (simp add: ENOENT_def)

subsection \<open>Cache invalidation\<close>

text \<open>
  C9, as the claim states it: the kernel accepts an invalidation of 2 entries and reports 1
  processed. The success-path assertion fails, for both wrappers.
\<close>

theorem invalidate_accepted_count_differs:
  "iommufd_backend_invalidate_cache (\<lambda>d c. ((0, 0), c\<lparr>inv_entry_num := 1\<rparr>)) (\<lambda>e. e) be0 9 0
     16 2 0 = Aborted
   \<and> iommufd_backend_invalidate_dev_cache (\<lambda>d c. ((0, 0), c\<lparr>dinv_entry_num := 1\<rparr>)) (\<lambda>e. e)
       be0 9 0 16 2 0 = Aborted"
  by (simp add: iommufd_backend_invalidate_cache_def iommufd_backend_invalidate_dev_cache_def
        Let_def)

text \<open>
  C9, amended. For either wrapper: when the kernel accepts the call, the wrapper returns 0 with
  the caller's entry count untouched if the reported count equals the requested one, and
  aborts otherwise; when the kernel rejects the call, the wrapper returns the negation of
  \<^verbatim>\<open>errno\<close> as the reporting of the failure leaves it, with the caller's entry count set to
  the reported count, and that return value is negative when that \<^verbatim>\<open>errno\<close> is positive.
  Aborting is neither of the two returns.
\<close>

theorem invalidate_outcomes:
  fixes ioctl :: "int \<Rightarrow> iommu_hwpt_invalidate \<Rightarrow> ioctl_answer \<times> iommu_hwpt_invalidate"
    and ioctl_dev :: "int \<Rightarrow> iommu_dev_invalidate \<Rightarrow> ioctl_answer \<times> iommu_dev_invalidate"
  assumes req: "req = \<lparr>inv_hwpt_id = ident, inv_data_type = data_type,
                        inv_entry_len = entry_len, inv_entry_num = entry_num,
                        inv_data_uptr = data_ptr\<rparr>"
    and dreq: "dreq = \<lparr>dinv_dev_id = ident, dinv_data_type = data_type,
                        dinv_entry_len = entry_len, dinv_entry_num = entry_num,
                        dinv_data_uptr = data_ptr\<rparr>"
  shows "(\<forall>e c. ioctl (fd be) req = ((0, e), c) \<longrightarrow>
            iommufd_backend_invalidate_cache ioctl report be ident data_type entry_len entry_num
              data_ptr
              = (if inv_entry_num c = entry_num then Returned (0, entry_num, []) else Aborted))
       \<and> (\<forall>r e c. r \<noteq> 0 \<and> ioctl (fd be) req = ((r, e), c) \<longrightarrow>
            iommufd_backend_invalidate_cache ioctl report be ident data_type entry_len entry_num
              data_ptr
              = Returned (- report e, inv_entry_num c,
                          [Error_report ''IOMMU_HWPT_INVALIDATE failed''])
            \<and> (0 < report e \<longrightarrow> - report e < 0))
       \<and> (\<forall>e c. ioctl_dev (fd be) dreq = ((0, e), c) \<longrightarrow>
            iommufd_backend_invalidate_dev_cache ioctl_dev report be ident data_type entry_len
              entry_num data_ptr
              = (if dinv_entry_num c = entry_num then Returned (0, entry_num, []) else Aborted))
       \<and> (\<forall>r e c. r \<noteq> 0 \<and> ioctl_dev (fd be) dreq = ((r, e), c) \<longrightarrow>
            iommufd_backend_invalidate_dev_cache ioctl_dev report be ident data_type entry_len
              entry_num data_ptr
              = Returned (- report e, dinv_entry_num c,
                          [Error_report ''IOMMU_DEV_INVALIDATE failed''])
            \<and> (0 < report e \<longrightarrow> - report e < 0))"
  using req dreq
  by (auto simp add: iommufd_backend_invalidate_cache_def
        iommufd_backend_invalidate_dev_cache_def Let_def)

text \<open>
  A kernel that processes every entry, one that stops after the first of two, and one that
  rejects the call with EINVAL (22) after the first of two; the reporting leaves \<^verbatim>\<open>errno\<close> as
  it was, or sets it to EBADF (9) because it could not write the message.
\<close>

theorem invalidate_outcomes_witness:
  "iommufd_backend_invalidate_cache (\<lambda>d c. ((0, 0), c)) (\<lambda>e. e) be0 9 0 16 2 0
     = Returned (0, 2, [])
   \<and> iommufd_backend_invalidate_cache (\<lambda>d c. ((0, 0), c\<lparr>inv_entry_num := 1\<rparr>)) (\<lambda>e. e) be0 9
       0 16 2 0 = Aborted
   \<and> iommufd_backend_invalidate_cache (\<lambda>d c. ((- 1, 22), c\<lparr>inv_entry_num := 1\<rparr>)) (\<lambda>e. e)
       be0 9 0 16 2 0 = Returned (- 22, 1, [Error_report ''IOMMU_HWPT_INVALIDATE failed''])
   \<and> iommufd_backend_invalidate_cache (\<lambda>d c. ((- 1, 22), c\<lparr>inv_entry_num := 1\<rparr>)) (\<lambda>e. 9)
       be0 9 0 16 2 0 = Returned (- 9, 1, [Error_report ''IOMMU_HWPT_INVALIDATE failed''])
   \<and> iommufd_backend_invalidate_dev_cache (\<lambda>d c. ((0, 0), c)) (\<lambda>e. e) be0 9 0 16 2 0
       = Returned (0, 2, [])
   \<and> iommufd_backend_invalidate_dev_cache (\<lambda>d c. ((- 1, 22), c\<lparr>dinv_entry_num := 1\<rparr>))
       (\<lambda>e. e) be0 9 0 16 2 0
       = Returned (- 22, 1, [Error_report ''IOMMU_DEV_INVALIDATE failed''])
   \<and> iommufd_backend_invalidate_dev_cache (\<lambda>d c. ((- 1, 22), c\<lparr>dinv_entry_num := 1\<rparr>))
       (\<lambda>e. 9) be0 9 0 16 2 0
       = Returned (- 9, 1, [Error_report ''IOMMU_DEV_INVALIDATE failed''])"
  using
    invalidate_outcomes [where ioctl = "\<lambda>d c. ((0, 0), c)" and ioctl_dev = "\<lambda>d c. ((0, 0), c)"
      and report = "\<lambda>e. e"
      and be = be0 and ident = 9 and data_type = 0 and entry_len = 16 and entry_num = 2
      and data_ptr = 0, OF refl refl]
    invalidate_outcomes [where ioctl = "\<lambda>d c. ((0, 0), c\<lparr>inv_entry_num := 1\<rparr>)"
      and ioctl_dev = "\<lambda>d c. ((- 1, 22), c\<lparr>dinv_entry_num := 1\<rparr>)"
      and report = "\<lambda>e. e"
      and be = be0 and ident = 9 and data_type = 0 and entry_len = 16 and entry_num = 2
      and data_ptr = 0, OF refl refl]
    invalidate_outcomes [where ioctl = "\<lambda>d c. ((- 1, 22), c\<lparr>inv_entry_num := 1\<rparr>)"
      and ioctl_dev = "\<lambda>d c. ((- 1, 22), c\<lparr>dinv_entry_num := 1\<rparr>)"
      and report = "\<lambda>e. e"
      and be = be0 and ident = 9 and data_type = 0 and entry_len = 16 and entry_num = 2
      and data_ptr = 0, OF refl refl]
    invalidate_outcomes [where ioctl = "\<lambda>d c. ((- 1, 22), c\<lparr>inv_entry_num := 1\<rparr>)"
      and ioctl_dev = "\<lambda>d c. ((- 1, 22), c\<lparr>dinv_entry_num := 1\<rparr>)"
      and report = "\<lambda>e. 9"
      and be = be0 and ident = 9 and data_type = 0 and entry_len = 16 and entry_num = 2
      and data_ptr = 0, OF refl refl]
  by simp

subsection \<open>The alias windows\<close>

lemma write_alias_10000:
  assumes "0x30000 \<le> off" "off \<le> 0x33f94"
  shows "tegra241_cmdqv_write h s off v sz = tegra241_cmdqv_write h s (off - 0x20000) v sz"
proof -
  let ?p = "off - 0x20000"
  have a: "\<not> 0x50000 < off" "off \<noteq> 0" "\<not> off \<le> 0x20" "\<not> off \<le> 0x3fc" "\<not> off \<le> 0x10cc"
    using assms by unat_arith+
  have b: "\<not> 0x50000 < ?p" "?p \<noteq> 0" "\<not> ?p \<le> 0x20" "\<not> ?p \<le> 0x3fc" "\<not> ?p \<le> 0x10cc"
    "\<not> 0x30000 \<le> ?p" "0x10000 \<le> ?p" "?p \<le> 0x13f94"
    using assms by unat_arith+
  show ?thesis
    unfolding tegra241_cmdqv_write_def Let_def case_range_def
    using assms a b by (simp add: regs)
qed

lemma write_alias_20000:
  assumes "0x40000 \<le> off" "off \<le> 0x43f8c"
  shows "tegra241_cmdqv_write h s off v sz = tegra241_cmdqv_write h s (off - 0x20000) v sz"
proof -
  let ?p = "off - 0x20000"
  have a: "\<not> 0x50000 < off" "off \<noteq> 0" "\<not> off \<le> 0x20" "\<not> off \<le> 0x3fc" "\<not> off \<le> 0x10cc"
    "\<not> off \<le> 0x33f94" "\<not> off \<le> 0x13f94"
    using assms by unat_arith+
  have b: "\<not> 0x50000 < ?p" "?p \<noteq> 0" "\<not> ?p \<le> 0x20" "\<not> ?p \<le> 0x3fc" "\<not> ?p \<le> 0x10cc"
    "\<not> 0x30000 \<le> ?p" "\<not> 0x40000 \<le> ?p" "\<not> ?p \<le> 0x13f94" "0x20000 \<le> ?p"
    "?p \<le> 0x23f8c"
    using assms by unat_arith+
  show ?thesis
    unfolding tegra241_cmdqv_write_def Let_def case_range_def
    using assms a b by (simp add: regs)
qed

text \<open>
  C4. A write at an offset in one of the two handled ranges of the alias windows, 0x30000 to
  0x33f94 and 0x40000 to 0x43f8c, gives the same result as the write of the same value and
  size at the offset 0x20000 below: the same fault, or the same device state in every field,
  the shared page and the trace included.
\<close>

theorem alias_write_is_primary_write:
  assumes "case_range A_VI_VCMDQ0_CONS_INDX A_VI_VCMDQ127_GERRORN off
         \<or> case_range A_VI_VCMDQ0_BASE_L A_VI_VCMDQ127_CONS_INDX_BASE_DRAM_H off"
  shows "tegra241_cmdqv_write h s off v sz = tegra241_cmdqv_write h s (off - 0x20000) v sz"
  using assms write_alias_10000 [of off] write_alias_20000 [of off]
  by (auto simp add: case_range_def regs)

theorem alias_write_is_primary_write_witness:
  "(case_range A_VI_VCMDQ0_CONS_INDX A_VI_VCMDQ127_GERRORN 0x40000
      \<or> case_range A_VI_VCMDQ0_BASE_L A_VI_VCMDQ127_CONS_INDX_BASE_DRAM_H 0x40000)
   \<and> tegra241_cmdqv_write host_grants dev0 0x40000 0x1005 4
       = tegra241_cmdqv_write host_grants dev0 0x20000 0x1005 4"
  using alias_write_is_primary_write [of "0x40000" host_grants dev0 "0x1005" 4]
  by (simp add: case_range_def regs)

subsection \<open>Decoding a queue's base register\<close>

lemma unat_queue_index: "i < 128 \<Longrightarrow> unat (of_nat i :: 64 word) = i"
  by (simp add: unat_of_nat)

lemma unat_queue_stride:
  assumes "i < 128"
  shows "unat (0x80 * of_nat i :: 64 word) = 128 * i"
proof -
  have "unat (0x80 :: 64 word) * unat (of_nat i :: 64 word) < 2 ^ LENGTH(64)"
    using assms by (simp add: unat_queue_index)
  then have "unat (0x80 * of_nat i :: 64 word) = unat (0x80 :: 64 word) * unat (of_nat i :: 64 word)"
    by (simp only: unat_mult_lem)
  then show ?thesis
    using assms by (simp add: unat_queue_index)
qed

lemma queue_index_of_offset:
  assumes "i < 128"
  shows "unat ((0x80 * of_nat i :: 64 word) div 0x80) = i"
  using assms by (simp add: unat_div unat_queue_stride)

lemma unat_base_l_offset:
  assumes "i < 128"
  shows "unat ((0x20000 :: 64 word) + 0x80 * of_nat i) = 0x20000 + 128 * i"
proof -
  have "unat (0x20000 :: 64 word) + unat (0x80 * of_nat i :: 64 word) < 2 ^ LENGTH(64)"
    using assms by (simp add: unat_queue_stride)
  then have "unat ((0x20000 :: 64 word) + 0x80 * of_nat i)
      = unat (0x20000 :: 64 word) + unat (0x80 * of_nat i :: 64 word)"
    by (simp only: unat_add_lem)
  then show ?thesis
    using assms by (simp add: unat_queue_stride)
qed

lemma high_mask: "(0xffffffff00000000 :: 64 word) = NOT (mask 32)"
  by (simp add: mask_eq_exp_minus_1)

lemma low_mask: "(0xffffffff :: 64 word) = mask 32"
  by (simp add: mask_eq_exp_minus_1)

lemma low_half_of_value: "(ucast (v :: 32 word) :: 64 word) AND 0xffffffff = ucast v"
  unfolding low_mask by (rule bit_word_eqI) (auto simp add: bit_simps dest: bit_imp_le_length)

lemma combined_high: "drop_bit 32 (((b :: 64 word) AND 0xffffffff00000000) OR ucast (v :: 32 word)) = drop_bit 32 b"
  unfolding high_mask by (rule bit_word_eqI) (auto simp add: bit_simps dest: bit_imp_le_length)

lemma combined_low: "(ucast (((b :: 64 word) AND 0xffffffff00000000) OR ucast (v :: 32 word)) :: 32 word) = v"
  unfolding high_mask by (rule bit_word_eqI) (auto simp add: bit_simps dest: bit_imp_le_length)

lemma write_window_20000:
  assumes "i < 128"
  shows "tegra241_cmdqv_write h s (A_VCMDQ0_BASE_L + 0x80 * of_nat i) val sz =
           tegra241_cmdqv_write_vcmdq h (map_page0 h s) A_VCMDQ0_BASE_L i val sz"
proof -
  define off :: "64 word" where "off = 0x20000 + 0x80 * of_nat i"
  have u: "unat off = 0x20000 + 128 * i"
    using assms by (simp add: off_def unat_base_l_offset)
  have a: "\<not> 0x50000 < off" "off \<noteq> 0" "\<not> off \<le> 0x20" "\<not> off \<le> 0x3fc" "\<not> off \<le> 0x10cc"
    "\<not> off \<le> 0x13f94" "\<not> 0x30000 \<le> off" "\<not> 0x40000 \<le> off" "0x20000 \<le> off" "off \<le> 0x23f8c"
    using u assms by (simp_all add: word_le_nat_alt word_less_nat_alt word_unat_eq_iff)
  have d: "off - 0x20000 = 0x80 * of_nat i"
    by (simp add: off_def)
  have e: "off - 0x80 * of_nat i = 0x20000"
    by (simp add: off_def)
  have "tegra241_cmdqv_write h s off val sz =
           tegra241_cmdqv_write_vcmdq h (map_page0 h s) 0x20000 i val sz"
    unfolding tegra241_cmdqv_write_def Let_def case_range_def
    using a assms by (simp add: regs d queue_index_of_offset e)
  then show ?thesis
    by (simp add: off_def regs)
qed

subsection \<open>Queue set-up\<close>

lemma free_id_keeps [simp]:
  "viommu (iommufd_backend_free_id h be ident s) = viommu s"
  "vqueue (iommufd_backend_free_id h be ident s) = vqueue s"
  "vcmdq_page0 (iommufd_backend_free_id h be ident s) = vcmdq_page0 s"
  "same_regs s0 (iommufd_backend_free_id h be ident s) = same_regs s0 s"
  by (simp_all add: iommufd_backend_free_id_def Let_def)

lemma alloc_queue_keeps [simp]:
  "viommu (snd (iommufd_viommu_alloc_queue h vi data s)) = viommu s"
  "vqueue (snd (iommufd_viommu_alloc_queue h vi data s)) = vqueue s"
  "vcmdq_page0 (snd (iommufd_viommu_alloc_queue h vi data s)) = vcmdq_page0 s"
  "same_regs s0 (snd (iommufd_viommu_alloc_queue h vi data s)) = same_regs s0 s"
  by (simp_all add: iommufd_viommu_alloc_queue_def Let_def split: option.splits)

lemma same_regs_updates [simp]:
  "same_regs s0 (s\<lparr>vqueue := q\<rparr>) = same_regs s0 s"
  "same_regs s0 (s\<lparr>viommu := vi\<rparr>) = same_regs s0 s"
  "same_regs s0 (s\<lparr>vcmdq_page0 := pg\<rparr>) = same_regs s0 s"
  "same_regs s0 (s\<lparr>trace := tr\<rparr>) = same_regs s0 s"
  by (simp_all add: same_regs_def)

lemma same_regs_refl [simp]: "same_regs s s"
  by (simp add: same_regs_def)

lemma setup_vcmdq_keeps_regs:
  assumes "tegra241_cmdqv_setup_vcmdq h s i = Inr (r, s')"
  shows "same_regs s s'"
  using assms unfolding tegra241_cmdqv_setup_vcmdq_def Let_def and_then_def subscript_def
  by (auto split: if_splits option.splits pointer.splits sum.splits)

lemma setup_vcmdq_returns:
  assumes "i < 128" "vqueue s i \<noteq> Freed"
  shows "\<exists>r s'. tegra241_cmdqv_setup_vcmdq h s i = Inr (r, s')"
  using assms unfolding tegra241_cmdqv_setup_vcmdq_def Let_def and_then_def subscript_def
  by (auto simp add: lens split: if_splits option.splits pointer.splits sum.splits)

lemma setup_vcmdq_one_request:
  assumes "i < 128" "vqueue s i \<noteq> Freed" "bs_viommu h = Some vi"
    and "data = \<lparr>vcmdq_id = of_nat i,
                  vcmdq_log2size = ucast (vcmdq_base_reg s i AND R_VCMDQ0_BASE_L_LOG2SIZE_MASK),
                  vcmdq_base = vcmdq_base_reg s i AND
                    (R_VCMDQ0_BASE_L_ADDR_MASK OR push_bit 32 R_VCMDQ0_BASE_H_ADDR_MASK)\<rparr>"
    and "vcmdq_log2size data \<noteq> 0" "is_ram h (vcmdq_base data)"
  shows "\<exists>r s'. tegra241_cmdqv_setup_vcmdq h s i = Inr (r, s') \<and>
           filter is_vqueue_alloc (trace s') =
             filter is_vqueue_alloc (trace s) @
               [Ioctl_vqueue_alloc (fd (iommufd vi)) (viommu_id vi) data]"
  using assms unfolding tegra241_cmdqv_setup_vcmdq_def Let_def and_then_def subscript_def
  by (cases "vqueue s i")
     (auto simp add: lens iommufd_viommu_alloc_queue_def iommufd_backend_free_id_def Let_def
           split: option.splits)

lemma setup_vcmdq_no_request:
  assumes "i < 128"
    and "bs_viommu h = None
       \<or> ucast (vcmdq_base_reg s i AND R_VCMDQ0_BASE_L_LOG2SIZE_MASK) = (0 :: 32 word)
       \<or> \<not> is_ram h (vcmdq_base_reg s i AND
                (R_VCMDQ0_BASE_L_ADDR_MASK OR push_bit 32 R_VCMDQ0_BASE_H_ADDR_MASK))"
  shows "\<exists>r. tegra241_cmdqv_setup_vcmdq h s i = Inr (r, s) \<and> r < 0"
  using assms unfolding tegra241_cmdqv_setup_vcmdq_def Let_def and_then_def subscript_def
  by (auto simp add: lens ENODEV_def EINVAL_def split: option.splits)

lemma write_vcmdq_base_l_4:
  assumes "i < 128"
  shows "tegra241_cmdqv_write_vcmdq h s A_VCMDQ0_BASE_L i (ucast (v :: 32 word)) 4 =
           map_sum id snd (tegra241_cmdqv_setup_vcmdq h
             (s\<lparr>vcmdq_base_reg := (vcmdq_base_reg s)
                 (i := (vcmdq_base_reg s i AND 0xffffffff00000000) OR ucast v)\<rparr>) i)"
  using assms unfolding tegra241_cmdqv_write_vcmdq_def Let_def and_then_def subscript_def
  by (simp add: regs lens low_half_of_value)

text \<open>
  C3. A 4-byte write of \<open>v\<close> to the base-low register of queue \<open>i\<close> is one call of the queue
  set-up on the state in which the shadow base of queue \<open>i\<close> is \<open>(b AND 0xffffffff00000000) OR v\<close>
  and nothing else has changed. If the write returns, the shadow base of queue \<open>i\<close> is that
  combined value: its bits 32 to 63 are those of the prior value \<open>b\<close>, its bits 0 to 31 are
  \<open>v\<close>, and the bases of the other queues are as before. It returns unless slot \<open>i\<close> stores a
  freed pointer. When the set-up's three checks pass, the write issues exactly one queue
  allocation request, whose size and address are cut from the combined value.
\<close>

theorem base_low_write_reconfigures_once:
  assumes i: "i < 128"
    and b: "b = vcmdq_base_reg s i"
    and c: "combined = (b AND 0xffffffff00000000) OR ucast (v :: 32 word)"
    and r: "result = tegra241_cmdqv_write h s (A_VCMDQ0_BASE_L + 0x80 * of_nat i) (ucast v) 4"
    and d: "data = \<lparr>vcmdq_id = of_nat i,
                     vcmdq_log2size = ucast (combined AND R_VCMDQ0_BASE_L_LOG2SIZE_MASK),
                     vcmdq_base = combined AND
                       (R_VCMDQ0_BASE_L_ADDR_MASK OR push_bit 32 R_VCMDQ0_BASE_H_ADDR_MASK)\<rparr>"
  shows "result = map_sum id snd (tegra241_cmdqv_setup_vcmdq h
           ((map_page0 h s)\<lparr>vcmdq_base_reg := (vcmdq_base_reg s)(i := combined)\<rparr>) i)
       \<and> (\<forall>s'. result = Inr s' \<longrightarrow>
             vcmdq_base_reg s' = (vcmdq_base_reg s)(i := combined)
             \<and> drop_bit 32 (vcmdq_base_reg s' i) = drop_bit 32 b
             \<and> ucast (vcmdq_base_reg s' i) = v)
       \<and> (vqueue s i \<noteq> Freed \<longrightarrow> (\<exists>s'. result = Inr s'))
       \<and> (\<forall>vi. vqueue s i \<noteq> Freed \<and> bs_viommu h = Some vi \<and> vcmdq_log2size data \<noteq> 0
               \<and> is_ram h (vcmdq_base data) \<longrightarrow>
             (\<exists>s'. result = Inr s' \<and>
                filter is_vqueue_alloc (trace s') =
                  filter is_vqueue_alloc (trace (map_page0 h s)) @
                    [Ioctl_vqueue_alloc (fd (iommufd vi)) (viommu_id vi) data]))"
proof -
  let ?s1 = "(map_page0 h s)\<lparr>vcmdq_base_reg := (vcmdq_base_reg s)(i := combined)\<rparr>"
  have eq: "result = map_sum id snd (tegra241_cmdqv_setup_vcmdq h ?s1 i)"
    using i by (simp add: r b c write_window_20000 write_vcmdq_base_l_4)
  have post: "vcmdq_base_reg s' = (vcmdq_base_reg s)(i := combined)
      \<and> drop_bit 32 (vcmdq_base_reg s' i) = drop_bit 32 b
      \<and> ucast (vcmdq_base_reg s' i) = v" if "result = Inr s'" for s'
  proof -
    from that eq obtain r' where "tegra241_cmdqv_setup_vcmdq h ?s1 i = Inr (r', s')"
      by (cases "tegra241_cmdqv_setup_vcmdq h ?s1 i") auto
    then have "same_regs ?s1 s'"
      by (rule setup_vcmdq_keeps_regs)
    then have h1: "vcmdq_base_reg s' = (vcmdq_base_reg s)(i := combined)"
      by (simp add: same_regs_def)
    then have h2: "vcmdq_base_reg s' i = (b AND 0xffffffff00000000) OR ucast v"
      by (simp add: c)
    have h3: "drop_bit 32 (vcmdq_base_reg s' i) = drop_bit 32 b"
      unfolding h2 by (rule combined_high)
    have h4: "ucast (vcmdq_base_reg s' i) = v"
      unfolding h2 by (rule combined_low)
    from h1 h3 h4 show ?thesis
      by blast
  qed
  have total: "\<exists>s'. result = Inr s'" if "vqueue s i \<noteq> Freed"
    using setup_vcmdq_returns [of i ?s1 h] i that by (auto simp add: eq)
  have once: "\<exists>s'. result = Inr s' \<and>
        filter is_vqueue_alloc (trace s') =
          filter is_vqueue_alloc (trace (map_page0 h s)) @
            [Ioctl_vqueue_alloc (fd (iommufd vi)) (viommu_id vi) data]"
    if "vqueue s i \<noteq> Freed" "bs_viommu h = Some vi" "vcmdq_log2size data \<noteq> 0"
      "is_ram h (vcmdq_base data)" for vi
    using setup_vcmdq_one_request [of i ?s1 h vi data] i that
    by (auto simp add: eq d)
  from eq post total once show ?thesis
    by blast
qed

lemma mask_values:
  "R_VCMDQ0_BASE_L_LOG2SIZE_MASK = 0x1f"
  "R_VCMDQ0_BASE_L_ADDR_MASK = 0xffffffe0"
  "R_VCMDQ0_BASE_H_ADDR_MASK = 0xffff"
  "R_VCMDQ0_BASE_L_ADDR_MASK OR push_bit 32 R_VCMDQ0_BASE_H_ADDR_MASK = 0xffffffffffe0"
  by (simp_all add: regs mask_eq_exp_minus_1)

text \<open>
  Queue 5 of \<open>dev2\<close>, whose shadow base holds 0xABCD in its high half: the write of 0x1005
  gives the base 0xABCD00001005 and one allocation request of size 2 ^ 5 at 0xABCD00001000.
\<close>

theorem base_low_write_reconfigures_once_witness:
  "(5 :: nat) < 128 \<and> vqueue dev2 5 \<noteq> Freed \<and> vcmdq_base_reg dev2 5 = 0xABCD00000000
   \<and> (\<exists>s'. tegra241_cmdqv_write host_grants dev2 (A_VCMDQ0_BASE_L + 0x80 * of_nat 5)
              (ucast (0x1005 :: 32 word)) 4 = Inr s'
         \<and> vcmdq_base_reg s' 5 = 0xABCD00001005
         \<and> filter is_vqueue_alloc (trace s') =
             [Ioctl_vqueue_alloc 3 1
                \<lparr>vcmdq_id = 5, vcmdq_log2size = 5, vcmdq_base = 0xABCD00001000\<rparr>])"
proof -
  let ?W = "tegra241_cmdqv_write host_grants dev2 (A_VCMDQ0_BASE_L + 0x80 * of_nat 5)
              (ucast (0x1005 :: 32 word)) 4"
  let ?c = "(vcmdq_base_reg dev2 5 AND 0xffffffff00000000) OR ucast (0x1005 :: 32 word)"
  let ?D = "\<lparr>vcmdq_id = of_nat 5,
             vcmdq_log2size = ucast (?c AND R_VCMDQ0_BASE_L_LOG2SIZE_MASK),
             vcmdq_base = ?c AND
               (R_VCMDQ0_BASE_L_ADDR_MASK OR push_bit 32 R_VCMDQ0_BASE_H_ADDR_MASK)\<rparr>"
  have i: "(5::nat) < 128"
    by simp
  have q: "vqueue dev2 5 \<noteq> Freed"
    by (simp add: dev2_def dev1_def dev0_def)
  have b: "vcmdq_base_reg dev2 5 = 0xABCD00000000"
    by (simp add: dev2_def)
  have c: "((0xABCD00000000 :: 64 word) AND 0xffffffff00000000) OR ucast (0x1005 :: 32 word)
      = 0xABCD00001005"
    by simp
  have l: "(ucast ((0xABCD00001005 :: 64 word) AND R_VCMDQ0_BASE_L_LOG2SIZE_MASK) :: 32 word) = 5"
    by (simp add: mask_values)
  have a: "(0xABCD00001005 :: 64 word) AND
      (R_VCMDQ0_BASE_L_ADDR_MASK OR push_bit 32 R_VCMDQ0_BASE_H_ADDR_MASK) = 0xABCD00001000"
    by (simp add: mask_values)
  have m: "map_page0 host_grants dev2 = dev2"
    by (simp add: map_page0_def dev2_def dev1_def dev0_def)
  have t: "trace dev2 = []"
    by (simp add: dev2_def dev1_def dev0_def)
  have v: "bs_viommu host_grants = Some viommu0" "is_ram host_grants x" for x
    by (simp_all add: host_grants_def)
  have f: "fd (iommufd viommu0) = 3" "viommu_id viommu0 = 1"
    by (simp_all add: viommu0_def be0_def)
  note T = base_low_write_reconfigures_once [where i = 5 and s = dev2 and v = "0x1005"
      and h = host_grants, OF i refl refl refl refl]
  have cv: "?c = 0xABCD00001005"
    unfolding b by (rule c)
  have dv: "?D = \<lparr>vcmdq_id = 5, vcmdq_log2size = 5, vcmdq_base = 0xABCD00001000\<rparr>"
    unfolding cv l a by simp
  have pre: "vqueue dev2 5 \<noteq> Freed \<and> bs_viommu host_grants = Some viommu0
      \<and> vcmdq_log2size ?D \<noteq> 0 \<and> is_ram host_grants (vcmdq_base ?D)"
    unfolding dv using q v by simp
  from T [THEN conjunct2, THEN conjunct2, THEN conjunct2, rule_format, OF pre]
  obtain s' where s': "?W = Inr s'"
    and tr: "filter is_vqueue_alloc (trace s') =
      filter is_vqueue_alloc (trace (map_page0 host_grants dev2)) @
        [Ioctl_vqueue_alloc (fd (iommufd viommu0)) (viommu_id viommu0) ?D]"
    by blast
  from T [THEN conjunct2, THEN conjunct1, rule_format, OF s']
  have "vcmdq_base_reg s' = (vcmdq_base_reg dev2)(5 := ?c)"
    by blast
  then have base: "vcmdq_base_reg s' 5 = 0xABCD00001005"
    unfolding cv by simp
  from tr have req: "filter is_vqueue_alloc (trace s') =
      [Ioctl_vqueue_alloc 3 1 \<lparr>vcmdq_id = 5, vcmdq_log2size = 5, vcmdq_base = 0xABCD00001000\<rparr>]"
    unfolding dv m t f by simp
  from i q b s' base req show ?thesis
    by blast
qed

subsection \<open>Loops\<close>

lemma for_loop_keeps:
  assumes "\<And>i s. i < n \<Longrightarrow> f (body i s) = f s"
  shows "f (for_loop n body s) = f s"
  using assms by (induction n) simp_all

lemma for_loop_zeroes:
  assumes "\<And>i s. i < n \<Longrightarrow> g (body i s) = (g s)(i := 0)"
  shows "g (for_loop n body s) j = (if j < n then 0 else g s j)"
  using assms by (induction n) (simp_all add: less_Suc_eq)

lemma for_loop_e_invariant:
  assumes "I 0 s"
    and "\<And>i t. i < n \<Longrightarrow> I i t \<Longrightarrow> \<exists>t'. body i t = Inr t' \<and> I (Suc i) t'"
  shows "\<exists>s'. for_loop_e n body s = Inr s' \<and> I n s'"
  using assms
proof (induction n)
  case 0
  then show ?case by simp
next
  case (Suc n)
  then obtain t where t: "for_loop_e n body s = Inr t" "I n t"
    by (meson less_Suc_eq)
  with Suc.prems(2) [of n t] show ?case
    by (simp add: and_then_def)
qed

lemma for_loop_e_first_fault:
  assumes "0 < n" "body 0 s = Inl f"
  shows "for_loop_e n body s = Inl f"
  using assms
proof (induction n)
  case 0
  then show ?case by simp
next
  case (Suc n)
  then show ?case
    by (cases n) (simp_all add: and_then_def)
qed

subsection \<open>Reset\<close>

lemma init_regs_scalars:
  "config (cmdqv_init_regs s) = V_CONFIG_RESET"
  "param (cmdqv_init_regs s) = V_PARAM_RESET"
  "status (cmdqv_init_regs s) = 1"
  "vintf_config (cmdqv_init_regs s) = 0"
  "vintf_status (cmdqv_init_regs s) = 0"
  unfolding cmdqv_init_regs_def Let_def
  by (simp_all add: for_loop_keeps [where f = config] for_loop_keeps [where f = param]
        for_loop_keeps [where f = status] for_loop_keeps [where f = vintf_config]
        for_loop_keeps [where f = vintf_status] regs)

lemma init_regs_frame:
  "viommu (cmdqv_init_regs s) = viommu s"
  "vqueue (cmdqv_init_regs s) = vqueue s"
  "vcmdq_page0 (cmdqv_init_regs s) = vcmdq_page0 s"
  "trace (cmdqv_init_regs s) = trace s"
  unfolding cmdqv_init_regs_def Let_def
  by (simp_all add: for_loop_keeps [where f = viommu] for_loop_keeps [where f = vqueue]
        for_loop_keeps [where f = vcmdq_page0] for_loop_keeps [where f = trace])

lemma init_regs_maps:
  assumes "i < 2"
  shows "vi_err_map (cmdqv_init_regs s) i = 0"
    "vi_int_mask (cmdqv_init_regs s) i = 0"
    "cmdq_err_map (cmdqv_init_regs s) i = 0"
  unfolding cmdqv_init_regs_def Let_def using assms
  by (simp_all add: for_loop_keeps [where f = vi_err_map] for_loop_zeroes [where g = vi_err_map]
        for_loop_keeps [where f = vi_int_mask] for_loop_zeroes [where g = vi_int_mask]
        for_loop_keeps [where f = cmdq_err_map] for_loop_zeroes [where g = cmdq_err_map])

lemma init_regs_vintf_map:
  assumes "i < 4"
  shows "vintf_cmdq_err_map (cmdqv_init_regs s) i = 0"
  unfolding cmdqv_init_regs_def Let_def using assms
  by (simp add: for_loop_keeps [where f = vintf_cmdq_err_map]
        for_loop_zeroes [where g = vintf_cmdq_err_map])

lemma init_regs_queues:
  assumes "i < 128"
  shows "cmdq_alloc_map (cmdqv_init_regs s) i = 0"
    "vcmdq_cons_indx (cmdqv_init_regs s) i = 0"
    "vcmdq_prod_indx (cmdqv_init_regs s) i = 0"
    "vcmdq_config (cmdqv_init_regs s) i = 0"
    "vcmdq_status (cmdqv_init_regs s) i = 0"
    "vcmdq_gerror (cmdqv_init_regs s) i = 0"
    "vcmdq_gerrorn (cmdqv_init_regs s) i = 0"
    "vcmdq_base_reg (cmdqv_init_regs s) i = 0"
    "vcmdq_cons_indx_base (cmdqv_init_regs s) i = 0"
  unfolding cmdqv_init_regs_def Let_def using assms
  by (simp_all add: for_loop_zeroes [where g = cmdq_alloc_map]
        for_loop_zeroes [where g = vcmdq_cons_indx] for_loop_zeroes [where g = vcmdq_prod_indx]
        for_loop_zeroes [where g = vcmdq_config] for_loop_zeroes [where g = vcmdq_status]
        for_loop_zeroes [where g = vcmdq_gerror] for_loop_zeroes [where g = vcmdq_gerrorn]
        for_loop_zeroes [where g = vcmdq_base_reg]
        for_loop_zeroes [where g = vcmdq_cons_indx_base])

lemma free_id_trace:
  "Ioctl_destroy (fd be) ident \<in> set (trace (iommufd_backend_free_id h be ident s))"
  "set (trace s) \<subseteq> set (trace (iommufd_backend_free_id h be ident s))"
  by (auto simp add: iommufd_backend_free_id_def Let_def)

lemma reset_slot_step:
  assumes valid: "slots_valid s0" and i: "i < 128"
    and vi: "viommu t = viommu s0"
    and vq: "\<forall>j. vqueue t j = (if j < i then Null else vqueue s0 j)"
    and tr: "\<forall>j<i. \<forall>q vi. vqueue s0 j = Valid q \<and> viommu s0 = Some vi \<longrightarrow>
               Ioctl_destroy (fd (iommufd vi)) (vqueue_id q) \<in> set (trace t)"
  shows "\<exists>t'. cmdqv_reset_slot h i t = Inr t' \<and> viommu t' = viommu s0
      \<and> (\<forall>j. vqueue t' j = (if j < Suc i then Null else vqueue s0 j))
      \<and> (\<forall>j<Suc i. \<forall>q vi. vqueue s0 j = Valid q \<and> viommu s0 = Some vi \<longrightarrow>
               Ioctl_destroy (fd (iommufd vi)) (vqueue_id q) \<in> set (trace t'))
      \<and> same_regs t t'"
proof (cases "vqueue s0 i")
  case Null
  with vq have "vqueue t i = Null"
    by simp
  with Null vi vq tr show ?thesis
    by (auto simp add: cmdqv_reset_slot_def less_Suc_eq)
next
  case (Valid q)
  with valid i obtain v where v: "viommu s0 = Some v"
    by (auto simp add: slots_valid_def)
  from Valid vq have "vqueue t i = Valid q"
    by simp
  with Valid v vi vq tr show ?thesis
    using free_id_trace [where be = "iommufd v" and ident = "vqueue_id q" and h = h and s = t]
    by (auto simp add: cmdqv_reset_slot_def less_Suc_eq)
next
  case Freed
  with valid i show ?thesis
    by (simp add: slots_valid_def)
qed

lemma reset_loop:
  assumes "slots_valid s"
  shows "\<exists>s1. for_loop_e 128 (cmdqv_reset_slot h) s = Inr s1 \<and> viommu s1 = viommu s
      \<and> (\<forall>j. vqueue s1 j = (if j < 128 then Null else vqueue s j))
      \<and> (\<forall>j<128. \<forall>q vi. vqueue s j = Valid q \<and> viommu s = Some vi \<longrightarrow>
               Ioctl_destroy (fd (iommufd vi)) (vqueue_id q) \<in> set (trace s1))"
proof -
  define I :: "nat \<Rightarrow> Tegra241CMDQV \<Rightarrow> bool" where "I k t \<longleftrightarrow> viommu t = viommu s
      \<and> (\<forall>j. vqueue t j = (if j < k then Null else vqueue s j))
      \<and> (\<forall>j<k. \<forall>q vi. vqueue s j = Valid q \<and> viommu s = Some vi \<longrightarrow>
               Ioctl_destroy (fd (iommufd vi)) (vqueue_id q) \<in> set (trace t))" for k t
  have "\<exists>s1. for_loop_e 128 (cmdqv_reset_slot h) s = Inr s1 \<and> I 128 s1"
  proof (rule for_loop_e_invariant)
    show "I 0 s"
      by (simp add: I_def)
  next
    fix i t
    assume "i < 128" "I i t"
    with reset_slot_step [OF assms, of i t h]
    show "\<exists>t'. cmdqv_reset_slot h i t = Inr t' \<and> I (Suc i) t'"
      unfolding I_def by blast
  qed
  then show ?thesis
    unfolding I_def by blast
qed

text \<open>
  On a state in which no slot stores a freed pointer and the device knows its viommu if it
  stores a queue, \<^verbatim>\<open>cmdqv_reset\<close> returns; afterwards each of the 128 slots is null, a destroy
  request has been issued for every queue that was stored, and the shadow registers have
  their reset values: config 0x00020403, param 0x00004011, status equal to the CMDQV_ENABLED
  mask (bit 0 set), and zero in both error maps, the interrupt mask, the virtual-interface
  registers and its error map, the allocation map and all per-queue registers.
\<close>

lemma reset_on_valid_slots:
  assumes "slots_valid s"
  shows "\<exists>s'. cmdqv_reset h s = Inr s'
     \<and> (\<forall>i<128. vqueue s' i = Null)
     \<and> (\<forall>i<128. \<forall>q vi. vqueue s i = Valid q \<and> viommu s = Some vi \<longrightarrow>
           Ioctl_destroy (fd (iommufd vi)) (vqueue_id q) \<in> set (trace s'))
     \<and> config s' = 0x00020403 \<and> param s' = 0x00004011
     \<and> status s' = ucast R_STATUS_CMDQV_ENABLED_MASK \<and> bit (status s') 0
     \<and> (\<forall>i<2. vi_err_map s' i = 0 \<and> vi_int_mask s' i = 0 \<and> cmdq_err_map s' i = 0)
     \<and> vintf_config s' = 0 \<and> vintf_status s' = 0
     \<and> (\<forall>i<4. vintf_cmdq_err_map s' i = 0)
     \<and> (\<forall>i<128. cmdq_alloc_map s' i = 0 \<and> vcmdq_cons_indx s' i = 0
           \<and> vcmdq_prod_indx s' i = 0 \<and> vcmdq_config s' i = 0 \<and> vcmdq_status s' i = 0
           \<and> vcmdq_gerror s' i = 0 \<and> vcmdq_gerrorn s' i = 0 \<and> vcmdq_base_reg s' i = 0
           \<and> vcmdq_cons_indx_base s' i = 0)"
proof -
  from reset_loop [OF assms, of h] obtain s1
    where loop: "for_loop_e 128 (cmdqv_reset_slot h) s = Inr s1"
      and slots: "\<forall>j. vqueue s1 j = (if j < 128 then Null else vqueue s j)"
      and freed: "\<forall>j<128. \<forall>q vi. vqueue s j = Valid q \<and> viommu s = Some vi \<longrightarrow>
               Ioctl_destroy (fd (iommufd vi)) (vqueue_id q) \<in> set (trace s1)"
    by blast
  let ?s' = "cmdqv_init_regs s1"
  have r: "cmdqv_reset h s = Inr ?s'"
    by (simp add: cmdqv_reset_def loop and_then_def)
  have q: "\<forall>i<128. vqueue ?s' i = Null"
    using slots by (simp add: init_regs_frame)
  have d: "\<forall>i<128. \<forall>q vi. vqueue s i = Valid q \<and> viommu s = Some vi \<longrightarrow>
           Ioctl_destroy (fd (iommufd vi)) (vqueue_id q) \<in> set (trace ?s')"
    using freed by (simp add: init_regs_frame)
  have c: "config ?s' = 0x00020403" "param ?s' = 0x00004011"
    "status ?s' = ucast R_STATUS_CMDQV_ENABLED_MASK" "bit (status ?s') 0"
    "vintf_config ?s' = 0" "vintf_status ?s' = 0"
    by (simp_all add: init_regs_scalars regs)
  have m: "\<forall>i<2. vi_err_map ?s' i = 0 \<and> vi_int_mask ?s' i = 0 \<and> cmdq_err_map ?s' i = 0"
    by (simp add: init_regs_maps)
  have v: "\<forall>i<4. vintf_cmdq_err_map ?s' i = 0"
    by (simp add: init_regs_vintf_map)
  have p: "\<forall>i<128. cmdq_alloc_map ?s' i = 0 \<and> vcmdq_cons_indx ?s' i = 0
           \<and> vcmdq_prod_indx ?s' i = 0 \<and> vcmdq_config ?s' i = 0 \<and> vcmdq_status ?s' i = 0
           \<and> vcmdq_gerror ?s' i = 0 \<and> vcmdq_gerrorn ?s' i = 0 \<and> vcmdq_base_reg ?s' i = 0
           \<and> vcmdq_cons_indx_base ?s' i = 0"
    by (simp add: init_regs_queues)
  from r q d c m v p show ?thesis
    by blast
qed

subsection \<open>A refused allocation\<close>

lemma write_base_l_queue_0:
  "tegra241_cmdqv_write h s A_VCMDQ0_BASE_L val sz =
     tegra241_cmdqv_write_vcmdq h (map_page0 h s) A_VCMDQ0_BASE_L 0 val sz"
  using write_window_20000 [of 0 h s val sz] by simp

lemma setup_vcmdq_granted:
  assumes "i < 128" "vqueue s i = Null" "bs_viommu h = Some vi"
    and "data = \<lparr>vcmdq_id = of_nat i,
                  vcmdq_log2size = ucast (vcmdq_base_reg s i AND R_VCMDQ0_BASE_L_LOG2SIZE_MASK),
                  vcmdq_base = vcmdq_base_reg s i AND
                    (R_VCMDQ0_BASE_L_ADDR_MASK OR push_bit 32 R_VCMDQ0_BASE_H_ADDR_MASK)\<rparr>"
    and "vcmdq_log2size data \<noteq> 0" "is_ram h (vcmdq_base data)"
    and "ioctl_vqueue_alloc h (fd (iommufd vi)) (viommu_id vi) data = Some ident"
  shows "\<exists>s'. tegra241_cmdqv_setup_vcmdq h s i = Inr (0, s')
      \<and> vqueue s' = (vqueue s)(i := Valid \<lparr>vqueue_id = ident\<rparr>)
      \<and> viommu s' = (if viommu s = None then Some vi else viommu s)
      \<and> same_regs s s'
      \<and> trace s' = trace s @ [Ioctl_vqueue_alloc (fd (iommufd vi)) (viommu_id vi) data]"
  using assms unfolding tegra241_cmdqv_setup_vcmdq_def Let_def and_then_def subscript_def
  by (auto simp add: lens iommufd_viommu_alloc_queue_def Let_def)

lemma setup_vcmdq_refused:
  assumes "i < 128" "vqueue s i = Valid q" "bs_viommu h = Some vi"
    and "data = \<lparr>vcmdq_id = of_nat i,
                  vcmdq_log2size = ucast (vcmdq_base_reg s i AND R_VCMDQ0_BASE_L_LOG2SIZE_MASK),
                  vcmdq_base = vcmdq_base_reg s i AND
                    (R_VCMDQ0_BASE_L_ADDR_MASK OR push_bit 32 R_VCMDQ0_BASE_H_ADDR_MASK)\<rparr>"
    and "vcmdq_log2size data \<noteq> 0" "is_ram h (vcmdq_base data)"
    and "ioctl_vqueue_alloc h (fd (iommufd vi)) (viommu_id vi) data = None"
    and "ioctl_destroy h (fd (iommufd vi)) (vqueue_id q) = 0"
  shows "\<exists>s'. tegra241_cmdqv_setup_vcmdq h s i = Inr (- ENODEV, s')
      \<and> vqueue s' = (vqueue s)(i := Freed)
      \<and> same_regs s s'
      \<and> trace s' = trace s @
           [Ioctl_destroy (fd (iommufd vi)) (vqueue_id q),
            Ioctl_vqueue_alloc (fd (iommufd vi)) (viommu_id vi) data,
            Error_report ''IOMMU_VIOMMU_SET_DATA failed'',
            Error_report ''failed to allocate VCMDQ'']"
  using assms unfolding tegra241_cmdqv_setup_vcmdq_def Let_def and_then_def subscript_def
  by (auto simp add: lens iommufd_viommu_alloc_queue_def iommufd_backend_free_id_def Let_def)

lemma setup_vcmdq_through_freed:
  assumes "i < 128" "vqueue s i = Freed" "bs_viommu h = Some vi"
    and "ucast (vcmdq_base_reg s i AND R_VCMDQ0_BASE_L_LOG2SIZE_MASK) \<noteq> (0 :: 32 word)"
    and "is_ram h (vcmdq_base_reg s i AND
           (R_VCMDQ0_BASE_L_ADDR_MASK OR push_bit 32 R_VCMDQ0_BASE_H_ADDR_MASK))"
  shows "tegra241_cmdqv_setup_vcmdq h s i = Inl UseAfterFree"
  using assms unfolding tegra241_cmdqv_setup_vcmdq_def Let_def and_then_def subscript_def
  by (simp add: lens)

lemma reset_through_freed:
  assumes "vqueue s 0 = Freed"
  shows "cmdqv_reset h s = Inl UseAfterFree"
proof -
  have "for_loop_e 128 (cmdqv_reset_slot h) s = Inl UseAfterFree"
    by (rule for_loop_e_first_fault) (simp_all add: cmdqv_reset_slot_def assms)
  then show ?thesis
    by (simp add: cmdqv_reset_def and_then_def)
qed

lemma combined_again:
  "((((b :: 64 word) AND 0xffffffff00000000) OR ucast (v :: 32 word)) AND 0xffffffff00000000)
     OR ucast v = (b AND 0xffffffff00000000) OR ucast v"
  unfolding high_mask by (rule bit_word_eqI) (auto simp add: bit_simps)

text \<open>
  C1. Slot \<open>i\<close> stores a live queue \<open>q\<close>; a 4-byte write of \<open>v\<close> to the base-low register of
  queue \<open>i\<close> passes the three checks of the set-up, the kernel destroys \<open>q\<close> and refuses the new
  allocation. The write returns; the destroy request comes before the allocation request
  and the shadow base holds the combined value, as the claim says. But slot \<open>i\<close> is not null:
  it still stores the pointer to the queue struct that was freed. The same write, repeated,
  reads the queue id through that pointer.
\<close>

theorem refused_allocation_leaves_freed_pointer:
  assumes i: "i < 128" and q: "vqueue s i = Valid q" and vi: "bs_viommu h = Some vi"
    and c: "combined = (vcmdq_base_reg s i AND 0xffffffff00000000) OR ucast (v :: 32 word)"
    and d: "data = \<lparr>vcmdq_id = of_nat i,
                     vcmdq_log2size = ucast (combined AND R_VCMDQ0_BASE_L_LOG2SIZE_MASK),
                     vcmdq_base = combined AND
                       (R_VCMDQ0_BASE_L_ADDR_MASK OR push_bit 32 R_VCMDQ0_BASE_H_ADDR_MASK)\<rparr>"
    and l: "vcmdq_log2size data \<noteq> 0" and ram: "is_ram h (vcmdq_base data)"
    and refused: "ioctl_vqueue_alloc h (fd (iommufd vi)) (viommu_id vi) data = None"
    and destroyed: "ioctl_destroy h (fd (iommufd vi)) (vqueue_id q) = 0"
  shows "\<exists>s'. tegra241_cmdqv_write h s (A_VCMDQ0_BASE_L + 0x80 * of_nat i) (ucast v) 4 = Inr s'
      \<and> trace s' = trace (map_page0 h s) @
           [Ioctl_destroy (fd (iommufd vi)) (vqueue_id q),
            Ioctl_vqueue_alloc (fd (iommufd vi)) (viommu_id vi) data,
            Error_report ''IOMMU_VIOMMU_SET_DATA failed'',
            Error_report ''failed to allocate VCMDQ'']
      \<and> vcmdq_base_reg s' i = combined
      \<and> vqueue s' i = Freed \<and> vqueue s' i \<noteq> Null
      \<and> tegra241_cmdqv_write h s' (A_VCMDQ0_BASE_L + 0x80 * of_nat i) (ucast v) 4
          = Inl UseAfterFree"
proof -
  let ?s1 = "(map_page0 h s)\<lparr>vcmdq_base_reg := (vcmdq_base_reg s)(i := combined)\<rparr>"
  have w: "tegra241_cmdqv_write h s (A_VCMDQ0_BASE_L + 0x80 * of_nat i) (ucast v) 4
      = map_sum id snd (tegra241_cmdqv_setup_vcmdq h ?s1 i)"
    using i by (simp add: c write_window_20000 write_vcmdq_base_l_4)
  have "\<exists>s'. tegra241_cmdqv_setup_vcmdq h ?s1 i = Inr (- ENODEV, s')
      \<and> vqueue s' = (vqueue ?s1)(i := Freed) \<and> same_regs ?s1 s'
      \<and> trace s' = trace ?s1 @
           [Ioctl_destroy (fd (iommufd vi)) (vqueue_id q),
            Ioctl_vqueue_alloc (fd (iommufd vi)) (viommu_id vi) data,
            Error_report ''IOMMU_VIOMMU_SET_DATA failed'',
            Error_report ''failed to allocate VCMDQ'']"
    using i q vi l ram refused destroyed
    by (intro setup_vcmdq_refused) (simp_all add: d)
  then obtain s' where s': "tegra241_cmdqv_setup_vcmdq h ?s1 i = Inr (- ENODEV, s')"
    and slot: "vqueue s' = (vqueue ?s1)(i := Freed)"
    and regs': "same_regs ?s1 s'"
    and tr: "trace s' = trace ?s1 @
           [Ioctl_destroy (fd (iommufd vi)) (vqueue_id q),
            Ioctl_vqueue_alloc (fd (iommufd vi)) (viommu_id vi) data,
            Error_report ''IOMMU_VIOMMU_SET_DATA failed'',
            Error_report ''failed to allocate VCMDQ'']"
    by blast
  have r1: "tegra241_cmdqv_write h s (A_VCMDQ0_BASE_L + 0x80 * of_nat i) (ucast v) 4 = Inr s'"
    by (simp add: w s')
  have r2: "trace s' = trace (map_page0 h s) @
           [Ioctl_destroy (fd (iommufd vi)) (vqueue_id q),
            Ioctl_vqueue_alloc (fd (iommufd vi)) (viommu_id vi) data,
            Error_report ''IOMMU_VIOMMU_SET_DATA failed'',
            Error_report ''failed to allocate VCMDQ'']"
    using tr by simp
  have base: "vcmdq_base_reg s' = (vcmdq_base_reg s)(i := combined)"
    using regs' by (simp add: same_regs_def)
  then have r3: "vcmdq_base_reg s' i = combined"
    by simp
  have r4: "vqueue s' i = Freed"
    using slot by simp
  let ?s2 = "(map_page0 h s')\<lparr>vcmdq_base_reg := (vcmdq_base_reg s')(i := combined)\<rparr>"
  have again: "(vcmdq_base_reg s' i AND 0xffffffff00000000) OR ucast v = combined"
    unfolding r3 unfolding c by (rule combined_again)
  have w2: "tegra241_cmdqv_write h s' (A_VCMDQ0_BASE_L + 0x80 * of_nat i) (ucast v) 4
      = map_sum id snd (tegra241_cmdqv_setup_vcmdq h ?s2 i)"
    using i by (simp add: write_window_20000 write_vcmdq_base_l_4 again)
  have "tegra241_cmdqv_setup_vcmdq h ?s2 i = Inl UseAfterFree"
    using i r4 vi l ram by (intro setup_vcmdq_through_freed) (simp_all add: d)
  with w2 have r5: "tegra241_cmdqv_write h s' (A_VCMDQ0_BASE_L + 0x80 * of_nat i) (ucast v) 4
      = Inl UseAfterFree"
    by simp
  from r1 r2 r3 r4 r5 show ?thesis
    by auto
qed

text \<open>
  A device with a live queue in slot 0, as \<open>dev1\<close> is, arises from the reset state by one base
  write that the kernel grants.
\<close>

lemma live_queue_reached:
  "\<exists>s1. tegra241_cmdqv_write host_grants dev0 (A_VCMDQ0_BASE_L + 0x80 * of_nat 0)
            (ucast (0x1005 :: 32 word)) 4 = Inr s1
     \<and> vqueue s1 = vqueue dev1 \<and> viommu s1 = viommu dev1 \<and> vcmdq_base_reg s1 0 = 0x1005"
proof -
  let ?s1 = "(map_page0 host_grants dev0)\<lparr>vcmdq_base_reg := (vcmdq_base_reg dev0)
      (0 := (vcmdq_base_reg dev0 0 AND 0xffffffff00000000) OR ucast (0x1005 :: 32 word))\<rparr>"
  have w: "tegra241_cmdqv_write host_grants dev0 (A_VCMDQ0_BASE_L + 0x80 * of_nat 0)
      (ucast (0x1005 :: 32 word)) 4
      = map_sum id snd (tegra241_cmdqv_setup_vcmdq host_grants ?s1 0)"
    by (simp only: write_window_20000 write_vcmdq_base_l_4 zero_less_numeral map_page0_keeps)
  have b: "vcmdq_base_reg ?s1 0 = 0x1005"
    by (simp add: dev0_def)
  have "\<exists>s'. tegra241_cmdqv_setup_vcmdq host_grants ?s1 0 = Inr (0, s')
      \<and> vqueue s' = (vqueue ?s1)(0 := Valid \<lparr>vqueue_id = 7\<rparr>)
      \<and> viommu s' = (if viommu ?s1 = None then Some viommu0 else viommu ?s1)
      \<and> same_regs ?s1 s'
      \<and> trace s' = trace ?s1 @
            [Ioctl_vqueue_alloc (fd (iommufd viommu0)) (viommu_id viommu0)
               \<lparr>vcmdq_id = of_nat 0,
                  vcmdq_log2size = ucast (vcmdq_base_reg ?s1 0 AND R_VCMDQ0_BASE_L_LOG2SIZE_MASK),
                  vcmdq_base = vcmdq_base_reg ?s1 0 AND
                    (R_VCMDQ0_BASE_L_ADDR_MASK OR push_bit 32 R_VCMDQ0_BASE_H_ADDR_MASK)\<rparr>]"
    by (rule setup_vcmdq_granted [OF _ _ _ refl])
       (simp_all add: b mask_values, simp_all add: dev0_def host_grants_def)
  then obtain s' where s': "tegra241_cmdqv_setup_vcmdq host_grants ?s1 0 = Inr (0, s')"
    "vqueue s' = (vqueue ?s1)(0 := Valid \<lparr>vqueue_id = 7\<rparr>)"
    "viommu s' = (if viommu ?s1 = None then Some viommu0 else viommu ?s1)"
    and r: "same_regs ?s1 s'"
    by blast
  from r have "vcmdq_base_reg s' = vcmdq_base_reg ?s1"
    by (simp only: same_regs_def)
  with b have "vcmdq_base_reg s' 0 = 0x1005"
    by simp
  with s' show ?thesis
    unfolding w by (simp add: dev1_def dev0_def)
qed

text \<open>
  \<open>dev1\<close> stores queue 7 in slot 0; the kernel of \<open>host_refuses\<close> destroys it and refuses the
  allocation for the base 0x2006 (size 2 ^ 6 at 0x2000).
\<close>

theorem refused_allocation_leaves_freed_pointer_witness:
  "(0 :: nat) < 128 \<and> vqueue dev1 0 = Valid \<lparr>vqueue_id = 7\<rparr>
   \<and> bs_viommu host_refuses = Some viommu0
   \<and> (\<exists>s'. tegra241_cmdqv_write host_refuses dev1 (A_VCMDQ0_BASE_L + 0x80 * of_nat 0)
              (ucast (0x2006 :: 32 word)) 4 = Inr s'
         \<and> trace s' =
             [Ioctl_destroy 3 7,
              Ioctl_vqueue_alloc 3 1 \<lparr>vcmdq_id = 0, vcmdq_log2size = 6, vcmdq_base = 0x2000\<rparr>,
              Error_report ''IOMMU_VIOMMU_SET_DATA failed'',
              Error_report ''failed to allocate VCMDQ'']
         \<and> vcmdq_base_reg s' 0 = 0x2006
         \<and> vqueue s' 0 = Freed
         \<and> tegra241_cmdqv_write host_refuses s' (A_VCMDQ0_BASE_L + 0x80 * of_nat 0)
              (ucast (0x2006 :: 32 word)) 4 = Inl UseAfterFree)"
proof -
  let ?c = "(vcmdq_base_reg dev1 0 AND 0xffffffff00000000) OR ucast (0x2006 :: 32 word)"
  let ?D = "\<lparr>vcmdq_id = of_nat 0,
             vcmdq_log2size = ucast (?c AND R_VCMDQ0_BASE_L_LOG2SIZE_MASK),
             vcmdq_base = ?c AND
               (R_VCMDQ0_BASE_L_ADDR_MASK OR push_bit 32 R_VCMDQ0_BASE_H_ADDR_MASK)\<rparr>"
  have i: "(0::nat) < 128"
    by simp
  have q: "vqueue dev1 0 = Valid \<lparr>vqueue_id = 7\<rparr>"
    by (simp add: dev1_def dev0_def)
  have b: "vcmdq_base_reg dev1 0 = 0"
    by (simp add: dev1_def dev0_def)
  have h: "bs_viommu host_refuses = Some viommu0" "is_ram host_refuses x"
    "ioctl_vqueue_alloc host_refuses d n p = None" "ioctl_destroy host_refuses d n = 0"
    for x d n p
    by (simp_all add: host_refuses_def host_grants_def)
  have f: "fd (iommufd viommu0) = 3" "viommu_id viommu0 = 1"
    by (simp_all add: viommu0_def be0_def)
  have m: "trace (map_page0 host_refuses dev1) = []"
    by (simp add: map_page0_def dev1_def dev0_def)
  have cv: "?c = 0x2006"
    unfolding b by simp
  have dv: "?D = \<lparr>vcmdq_id = 0, vcmdq_log2size = 6, vcmdq_base = 0x2000\<rparr>"
    unfolding cv by (simp add: mask_values)
  have l: "vcmdq_log2size ?D \<noteq> 0"
    unfolding dv by simp
  from refused_allocation_leaves_freed_pointer
    [where s = dev1 and h = host_refuses and v = "0x2006", OF i q h(1) refl refl l h(2) h(3) h(4)]
  obtain s' where
    "tegra241_cmdqv_write host_refuses dev1 (A_VCMDQ0_BASE_L + 0x80 * of_nat 0)
        (ucast (0x2006 :: 32 word)) 4 = Inr s'"
    "trace s' = trace (map_page0 host_refuses dev1) @
           [Ioctl_destroy (fd (iommufd viommu0)) (vqueue_id \<lparr>vqueue_id = 7\<rparr>),
            Ioctl_vqueue_alloc (fd (iommufd viommu0)) (viommu_id viommu0) ?D,
            Error_report ''IOMMU_VIOMMU_SET_DATA failed'',
            Error_report ''failed to allocate VCMDQ'']"
    "vcmdq_base_reg s' 0 = ?c" "vqueue s' 0 = Freed"
    "tegra241_cmdqv_write host_refuses s' (A_VCMDQ0_BASE_L + 0x80 * of_nat 0)
        (ucast (0x2006 :: 32 word)) 4 = Inl UseAfterFree"
    by blast
  then have "tegra241_cmdqv_write host_refuses dev1 (A_VCMDQ0_BASE_L + 0x80 * of_nat 0)
        (ucast (0x2006 :: 32 word)) 4 = Inr s'
      \<and> trace s' =
             [Ioctl_destroy 3 7,
              Ioctl_vqueue_alloc 3 1 \<lparr>vcmdq_id = 0, vcmdq_log2size = 6, vcmdq_base = 0x2000\<rparr>,
              Error_report ''IOMMU_VIOMMU_SET_DATA failed'',
              Error_report ''failed to allocate VCMDQ'']
      \<and> vcmdq_base_reg s' 0 = 0x2006 \<and> vqueue s' 0 = Freed
      \<and> tegra241_cmdqv_write host_refuses s' (A_VCMDQ0_BASE_L + 0x80 * of_nat 0)
              (ucast (0x2006 :: 32 word)) 4 = Inl UseAfterFree"
    unfolding cv m f by (simp add: mask_values)
  with i q h(1) show ?thesis
    by blast
qed

subsection \<open>Reset after a refused allocation\<close>

lemma granted_then_refused:
  "\<exists>s1 s2. tegra241_cmdqv_write host_grants dev0 (A_VCMDQ0_BASE_L + 0x80 * of_nat 0)
              (ucast (0x1005 :: 32 word)) 4 = Inr s1
     \<and> tegra241_cmdqv_write host_refuses s1 (A_VCMDQ0_BASE_L + 0x80 * of_nat 0)
              (ucast (0x2006 :: 32 word)) 4 = Inr s2
     \<and> vqueue s2 0 = Freed"
proof -
  from live_queue_reached obtain s1
    where w1: "tegra241_cmdqv_write host_grants dev0 (A_VCMDQ0_BASE_L + 0x80 * of_nat 0)
              (ucast (0x1005 :: 32 word)) 4 = Inr s1"
      and q1: "vqueue s1 = vqueue dev1" and b1: "vcmdq_base_reg s1 0 = 0x1005"
    by blast
  let ?t = "(map_page0 host_refuses s1)\<lparr>vcmdq_base_reg := (vcmdq_base_reg s1)
      (0 := (vcmdq_base_reg s1 0 AND 0xffffffff00000000) OR ucast (0x2006 :: 32 word))\<rparr>"
  have w2: "tegra241_cmdqv_write host_refuses s1 (A_VCMDQ0_BASE_L + 0x80 * of_nat 0)
      (ucast (0x2006 :: 32 word)) 4
      = map_sum id snd (tegra241_cmdqv_setup_vcmdq host_refuses ?t 0)"
    by (simp only: write_window_20000 write_vcmdq_base_l_4 zero_less_numeral map_page0_keeps)
  have b: "vcmdq_base_reg ?t 0 = 0x2006"
    by (simp add: b1)
  have q: "vqueue ?t 0 = Valid \<lparr>vqueue_id = 7\<rparr>"
    by (simp add: q1 dev1_def)
  have "\<exists>s'. tegra241_cmdqv_setup_vcmdq host_refuses ?t 0 = Inr (- ENODEV, s')
      \<and> vqueue s' = (vqueue ?t)(0 := Freed) \<and> same_regs ?t s'
      \<and> trace s' = trace ?t @
           [Ioctl_destroy (fd (iommufd viommu0)) (vqueue_id \<lparr>vqueue_id = 7\<rparr>),
            Ioctl_vqueue_alloc (fd (iommufd viommu0)) (viommu_id viommu0)
              \<lparr>vcmdq_id = of_nat 0,
                 vcmdq_log2size = ucast (vcmdq_base_reg ?t 0 AND R_VCMDQ0_BASE_L_LOG2SIZE_MASK),
                 vcmdq_base = vcmdq_base_reg ?t 0 AND
                   (R_VCMDQ0_BASE_L_ADDR_MASK OR push_bit 32 R_VCMDQ0_BASE_H_ADDR_MASK)\<rparr>,
            Error_report ''IOMMU_VIOMMU_SET_DATA failed'',
            Error_report ''failed to allocate VCMDQ'']"
    by (rule setup_vcmdq_refused [OF _ q _ refl])
       (simp_all add: b1 mask_values, simp_all add: host_refuses_def host_grants_def)
  then obtain s2 where "tegra241_cmdqv_setup_vcmdq host_refuses ?t 0 = Inr (- ENODEV, s2)"
    "vqueue s2 = (vqueue ?t)(0 := Freed)"
    by blast
  then have "tegra241_cmdqv_write host_refuses s1 (A_VCMDQ0_BASE_L + 0x80 * of_nat 0)
      (ucast (0x2006 :: 32 word)) 4 = Inr s2" "vqueue s2 0 = Freed"
    unfolding w2 by simp_all
  with w1 show ?thesis
    by blast
qed

text \<open>
  C7. From the reset state \<open>dev0\<close> the guest writes the base-low register of queue 0 twice; the
  kernel grants the first allocation and refuses the second. Slot 0 then stores the pointer
  to the freed queue struct, and \<^verbatim>\<open>cmdqv_reset\<close> reads the queue id through it: the reset does
  not reach a state with cleared slots and reset registers.
\<close>

theorem reset_after_refused_allocation:
  "\<exists>s1 s2. tegra241_cmdqv_write host_grants dev0 (A_VCMDQ0_BASE_L + 0x80 * of_nat 0)
              (ucast (0x1005 :: 32 word)) 4 = Inr s1
     \<and> tegra241_cmdqv_write host_refuses s1 (A_VCMDQ0_BASE_L + 0x80 * of_nat 0)
              (ucast (0x2006 :: 32 word)) 4 = Inr s2
     \<and> vqueue s2 0 = Freed
     \<and> cmdqv_reset host_grants s2 = Inl UseAfterFree
     \<and> cmdqv_reset host_refuses s2 = Inl UseAfterFree"
proof -
  from granted_then_refused obtain s1 s2
    where w: "tegra241_cmdqv_write host_grants dev0 (A_VCMDQ0_BASE_L + 0x80 * of_nat 0)
              (ucast (0x1005 :: 32 word)) 4 = Inr s1"
      "tegra241_cmdqv_write host_refuses s1 (A_VCMDQ0_BASE_L + 0x80 * of_nat 0)
              (ucast (0x2006 :: 32 word)) 4 = Inr s2"
      and f: "vqueue s2 0 = Freed"
    by blast
  from f have r: "cmdqv_reset host_grants s2 = Inl UseAfterFree"
    "cmdqv_reset host_refuses s2 = Inl UseAfterFree"
    by (rule reset_through_freed)+
  from w f r show ?thesis
    by blast
qed

end
